theory Spec2Isabelle
  imports Complex_Main "HOL-Library.Word"
begin

section \<open>The reflections denoiser: host-side command recording\<close>

text \<open>
  The development embeds the class \<open>RayTracedReflections\<close> (the second document of
  \<open>src/src/bilateral_blur.cpp\<close>) and the end of \<open>HybridRendering::update\<close>
  (\<open>src/src/main.cpp\<close>). The C++ records Vulkan commands into a command buffer; here
  every member function returns the list of commands it records, together with the
  updated instance where it assigns a member. The profiler scopes
  (\<open>DW_SCOPED_SAMPLE\<close>), the constant subresource range (one colour mip, one layer) and
  the shader-binding-table regions of \<open>vkCmdTraceRaysKHR\<close> are left out of the commands.
\<close>

subsection \<open>Resources\<close>

text \<open>A \<open>float\<close> is carried as its 32-bit pattern: the host code only copies floats
  from members into push constants.\<close>

type_synonym float = "32 word"

text \<open>The images of \<open>create_images\<close>; the arrays of two are indexed by the slot.\<close>

datatype image =
    RayTraceImage
  | CurrentOutputImage nat
  | CurrentMomentsImage nat
  | PrevImage
  | ATrousImage nat
  | UpsampleImage

text \<open>The buffers of \<open>create_buffers\<close>.\<close>

datatype buffer =
    DenoiseTileCoordsBuffer
  | DenoiseDispatchArgsBuffer
  | CopyTileCoordsBuffer
  | CopyDispatchArgsBuffer

text \<open>The descriptor sets of \<open>create_descriptor_sets\<close>, and those of the collaborators
  (scene, per-frame uniforms, G-buffer, skybox, blue noise, DDGI) that the passes bind.\<close>

datatype descriptor_set =
    RayTraceWriteDS
  | RayTraceReadDS
  | CurrentWriteDS nat
  | CurrentReadDS nat
  | PrevReadDS nat
  | OutputOnlyReadDS nat
  | IndirectBufferDS
  | ATrousReadDS nat
  | ATrousWriteDS nat
  | UpsampleWriteDS
  | UpsampleReadDS
  | SceneDS
  | PerFrameDS
  | GBufferOutputDS
  | GBufferHistoryDS
  | SkyboxDS
  | BlueNoiseDS
  | DDGIReadDS

datatype resource = Img image | Buf buffer | External descriptor_set

text \<open>\<open>write_descriptor_sets\<close>: what each descriptor set refers to, in binding order.
  Note that \<open>prev_read_ds[i]\<close> pairs the single previous image with the moments of slot
  \<open>i\<close>.\<close>

fun ds_resources :: "descriptor_set \<Rightarrow> resource list" where
  "ds_resources RayTraceWriteDS = [Img RayTraceImage]"
| "ds_resources RayTraceReadDS = [Img RayTraceImage]"
| "ds_resources (OutputOnlyReadDS i) = [Img (CurrentOutputImage i)]"
| "ds_resources (CurrentWriteDS i) = [Img (CurrentOutputImage i), Img (CurrentMomentsImage i)]"
| "ds_resources (CurrentReadDS i) = [Img (CurrentOutputImage i), Img (CurrentMomentsImage i)]"
| "ds_resources (PrevReadDS i) = [Img PrevImage, Img (CurrentMomentsImage i)]"
| "ds_resources IndirectBufferDS =
     [Buf DenoiseTileCoordsBuffer, Buf DenoiseDispatchArgsBuffer,
      Buf CopyTileCoordsBuffer, Buf CopyDispatchArgsBuffer]"
| "ds_resources (ATrousWriteDS i) = [Img (ATrousImage i)]"
| "ds_resources (ATrousReadDS i) = [Img (ATrousImage i)]"
| "ds_resources UpsampleWriteDS = [Img UpsampleImage]"
| "ds_resources UpsampleReadDS = [Img UpsampleImage]"
| "ds_resources SceneDS = [External SceneDS]"
| "ds_resources PerFrameDS = [External PerFrameDS]"
| "ds_resources GBufferOutputDS = [External GBufferOutputDS]"
| "ds_resources GBufferHistoryDS = [External GBufferHistoryDS]"
| "ds_resources SkyboxDS = [External SkyboxDS]"
| "ds_resources BlueNoiseDS = [External BlueNoiseDS]"
| "ds_resources DDGIReadDS = [External DDGIReadDS]"

text \<open>The descriptor type the set was written with: \<open>STORAGE_IMAGE\<close> and
  \<open>STORAGE_BUFFER\<close> descriptors are writable by a shader, \<open>COMBINED_IMAGE_SAMPLER\<close>
  ones (and the collaborators' sets) are read only.\<close>

fun is_storage :: "descriptor_set \<Rightarrow> bool" where
  "is_storage RayTraceWriteDS = True"
| "is_storage (CurrentWriteDS i) = True"
| "is_storage IndirectBufferDS = True"
| "is_storage (ATrousWriteDS i) = True"
| "is_storage UpsampleWriteDS = True"
| "is_storage d = False"

subsection \<open>Commands\<close>

datatype image_layout =
    LAYOUT_UNDEFINED
  | LAYOUT_GENERAL
  | LAYOUT_SHADER_READ_ONLY_OPTIMAL
  | LAYOUT_TRANSFER_SRC_OPTIMAL
  | LAYOUT_TRANSFER_DST_OPTIMAL

datatype access = ACCESS_SHADER_READ | ACCESS_SHADER_WRITE | ACCESS_INDIRECT_COMMAND_READ

datatype stage =
    STAGE_FRAGMENT_SHADER
  | STAGE_RAY_TRACING_SHADER
  | STAGE_COMPUTE_SHADER
  | STAGE_DRAW_INDIRECT

datatype memory_barrier = MemoryBarrier "access set" "access set"

datatype image_memory_barrier =
  ImageMemoryBarrier image image_layout image_layout "access set" "access set"

text \<open>Every buffer barrier of the source spans offset 0 to \<open>VK_WHOLE_SIZE\<close>.\<close>

datatype buffer_memory_barrier = BufferMemoryBarrier buffer "access set" "access set"

datatype pipeline =
    RayTracePipeline
  | ResetArgsPipeline
  | TemporalAccumulationPipeline
  | CopyTilesPipeline
  | ATrousPipeline
  | UpsamplePipeline

datatype bind_point = BIND_POINT_COMPUTE | BIND_POINT_RAY_TRACING

record RayTracePushConstants =
  rtpc_bias :: float
  rtpc_trim :: float
  rtpc_num_frames :: "32 word"
  rtpc_g_buffer_mip :: int
  rtpc_sample_gi :: int
  rtpc_approximate_with_ddgi :: int
  rtpc_gi_intensity :: float
  rtpc_rough_ddgi_intensity :: float
  rtpc_ibl_indirect_specular_intensity :: float

record TemporalAccumulationPushConstants =
  tapc_camera_delta :: "float \<times> float \<times> float"
  tapc_frame_time :: float
  tapc_alpha :: float
  tapc_moments_alpha :: float
  tapc_g_buffer_mip :: int
  tapc_approximate_with_ddgi :: int

text \<open>\<open>step_size\<close> is a C++ \<open>int\<close>: a 32-bit word, read as signed by \<open>sint\<close>.\<close>

record ATrousFilterPushConstants =
  atpc_radius :: int
  atpc_step_size :: "32 word"
  atpc_phi_color :: float
  atpc_phi_normal :: float
  atpc_sigma_depth :: float
  atpc_g_buffer_mip :: int
  atpc_approximate_with_ddgi :: int

record UpsamplePushConstants =
  uspc_g_buffer_mip :: int

datatype push_constants =
    RayTracePC RayTracePushConstants
  | TemporalAccumulationPC TemporalAccumulationPushConstants
  | ATrousFilterPC ATrousFilterPushConstants
  | UpsamplePC UpsamplePushConstants

text \<open>The commands. \<open>PushConstants\<close> and \<open>BindDescriptorSets\<close> name the pipeline whose
  layout they are given; \<open>BindDescriptorSets\<close> always starts at set 0 and carries its
  dynamic offsets; \<open>SetImageLayout\<close> is the helper \<open>dw::vk::utilities::set_image_layout\<close>.\<close>

datatype cmd =
    SetImageLayout image image_layout image_layout
  | PipelineBarrier "memory_barrier list" "image_memory_barrier list"
      "buffer_memory_barrier list" "stage set" "stage set"
  | BindPipeline bind_point pipeline
  | PushConstants pipeline push_constants
  | BindDescriptorSets bind_point pipeline "descriptor_set list" "32 word list"
  | Dispatch nat nat nat
  | DispatchIndirect buffer
  | TraceRays nat nat nat
  | ClearColorImage image image_layout "float \<times> float \<times> float \<times> float"
  | CopyImage image image_layout image image_layout nat nat nat

subsection \<open>The instance and its collaborators\<close>

datatype RayTraceScale =
    RAY_TRACE_SCALE_FULL_RES
  | RAY_TRACE_SCALE_HALF_RES
  | RAY_TRACE_SCALE_QUARTER_RES

datatype OutputType =
    OUTPUT_RAY_TRACE
  | OUTPUT_TEMPORAL_ACCUMULATION
  | OUTPUT_ATROUS
  | OUTPUT_UPSAMPLE

record RayTrace =
  bias :: float
  trim :: float
  sample_gi :: bool
  approximate_with_ddgi :: bool
  gi_intensity :: float
  rough_ddgi_intensity :: float
  ibl_indirect_specular_intensity :: float

record TemporalAccumulation =
  alpha :: float
  moments_alpha :: float
  blur_as_input :: bool

text \<open>\<open>filter_iterations\<close>, \<open>feedback_iteration\<close> and \<open>radius\<close> are 32-bit signed members;
  they are only compared and copied, so they are integers here. \<open>read_idx\<close> indexes the
  arrays of two.\<close>

record ATrous =
  radius :: int
  filter_iterations :: int
  feedback_iteration :: int
  phi_color :: float
  phi_normal :: float
  sigma_depth :: float
  read_idx :: nat

record Backend =
  swap_chain_width :: nat
  swap_chain_height :: nat
  current_frame_idx :: "32 word"

record RayTracedReflections =
  m_backend :: Backend
  m_scale :: RayTraceScale
  m_g_buffer_mip :: nat
  m_width :: nat
  m_height :: nat
  m_first_frame :: bool
  m_denoise :: bool
  m_current_output :: OutputType
  m_ray_trace :: RayTrace
  m_temporal_accumulation :: TemporalAccumulation
  m_a_trous :: ATrous

text \<open>The fields of \<open>CommonResources\<close> that the denoiser and the frame loop use.\<close>

record CommonResources =
  ping_pong :: bool
  first_frame :: bool
  num_frames :: "32 word"
  camera_delta :: "float \<times> float \<times> float"
  frame_time :: float
  ubo_size :: "32 word"

record DDGI =
  current_ubo_offset :: "32 word"

text \<open>A \<open>bool\<close> used as an array index.\<close>

definition slot :: "bool \<Rightarrow> nat" where
  "slot b = (if b then 1 else 0)"

text \<open>\<open>static_cast<uint32_t>(ceil(float(w) / float(n)))\<close>, exact for the image sizes
  that occur (below \<open>2 ^ 24\<close>).\<close>

definition ceil_div :: "nat \<Rightarrow> nat \<Rightarrow> nat" where
  "ceil_div w n = (w + n - 1) div n"

definition TEMPORAL_ACCUMULATION_NUM_THREADS_X :: nat where
  "TEMPORAL_ACCUMULATION_NUM_THREADS_X = 8"

definition TEMPORAL_ACCUMULATION_NUM_THREADS_Y :: nat where
  "TEMPORAL_ACCUMULATION_NUM_THREADS_Y = 8"

fun scale_index :: "RayTraceScale \<Rightarrow> nat" where
  "scale_index RAY_TRACE_SCALE_FULL_RES = 0"
| "scale_index RAY_TRACE_SCALE_HALF_RES = 1"
| "scale_index RAY_TRACE_SCALE_QUARTER_RES = 2"

text \<open>Modelled from the spec: the in-class initialiser of \<open>m_first_frame\<close>, which is in the
  header \<open>ray_traced_reflections.h\<close>, not among the sources. The spec's life cycle of an
  instance starts at \<open>Constructed (first_frame=true)\<close>.\<close>

definition initial_first_frame :: bool where
  "initial_first_frame = True"

text \<open>The constructor. The other in-class member initialisers are in the same header, so
  the initial members come as the parameter \<open>defaults\<close>; the constructor assigns the
  scale, the size and the G-buffer mip. The division by \<open>powf(2.0f, float(scale))\<close> and the
  conversion back to \<open>uint32_t\<close> are exact for the sizes that occur.\<close>

definition construct :: "RayTracedReflections \<Rightarrow> Backend \<Rightarrow> RayTraceScale \<Rightarrow> RayTracedReflections" where
  "construct defaults backend scale =
     defaults\<lparr>m_backend := backend,
              m_scale := scale,
              m_width := swap_chain_width backend div 2 ^ scale_index scale,
              m_height := swap_chain_height backend div 2 ^ scale_index scale,
              m_g_buffer_mip := scale_index scale,
              m_first_frame := initial_first_frame\<rparr>"

subsection \<open>\<open>RayTracedReflections::clear_images\<close>\<close>

definition zero_color :: "float \<times> float \<times> float \<times> float" where
  "zero_color = (0, 0, 0, 0)"

definition clear_images ::
  "RayTracedReflections \<Rightarrow> CommonResources \<Rightarrow> RayTracedReflections \<times> cmd list" where
  "clear_images r c =
     (if m_first_frame r then
        (r\<lparr>m_first_frame := False\<rparr>,
         [SetImageLayout PrevImage LAYOUT_UNDEFINED LAYOUT_GENERAL,
          SetImageLayout (CurrentOutputImage (slot (\<not> ping_pong c))) LAYOUT_UNDEFINED LAYOUT_GENERAL,
          SetImageLayout (CurrentMomentsImage (slot (\<not> ping_pong c))) LAYOUT_UNDEFINED LAYOUT_GENERAL,
          ClearColorImage PrevImage LAYOUT_GENERAL zero_color,
          ClearColorImage (CurrentOutputImage (slot (\<not> ping_pong c))) LAYOUT_GENERAL zero_color,
          ClearColorImage (CurrentMomentsImage (slot (\<not> ping_pong c))) LAYOUT_GENERAL zero_color,
          SetImageLayout PrevImage LAYOUT_GENERAL LAYOUT_SHADER_READ_ONLY_OPTIMAL,
          SetImageLayout (CurrentOutputImage (slot (\<not> ping_pong c)))
            LAYOUT_GENERAL LAYOUT_SHADER_READ_ONLY_OPTIMAL,
          SetImageLayout (CurrentMomentsImage (slot (\<not> ping_pong c)))
            LAYOUT_GENERAL LAYOUT_SHADER_READ_ONLY_OPTIMAL])
      else (r, []))"

subsection \<open>\<open>RayTracedReflections::ray_trace\<close>\<close>

text \<open>\<open>a && !m_first_frame ? 1 : 0\<close> parses as \<open>(a && !m_first_frame) ? 1 : 0\<close>.\<close>

definition ray_trace_push_constants ::
  "RayTracedReflections \<Rightarrow> CommonResources \<Rightarrow> RayTracePushConstants" where
  "ray_trace_push_constants r c =
     \<lparr>rtpc_bias = bias (m_ray_trace r),
      rtpc_trim = trim (m_ray_trace r),
      rtpc_num_frames = num_frames c,
      rtpc_g_buffer_mip = int (m_g_buffer_mip r),
      rtpc_sample_gi = (if sample_gi (m_ray_trace r) \<and> \<not> m_first_frame r then 1 else 0),
      rtpc_approximate_with_ddgi =
        (if approximate_with_ddgi (m_ray_trace r) \<and> \<not> m_first_frame r then 1 else 0),
      rtpc_gi_intensity = gi_intensity (m_ray_trace r),
      rtpc_rough_ddgi_intensity = rough_ddgi_intensity (m_ray_trace r),
      rtpc_ibl_indirect_specular_intensity = ibl_indirect_specular_intensity (m_ray_trace r)\<rparr>"

definition ray_trace :: "RayTracedReflections \<Rightarrow> CommonResources \<Rightarrow> DDGI \<Rightarrow> cmd list" where
  "ray_trace r c ddgi =
     [PipelineBarrier
        [MemoryBarrier {ACCESS_SHADER_WRITE} {ACCESS_SHADER_READ}]
        [ImageMemoryBarrier RayTraceImage LAYOUT_UNDEFINED LAYOUT_GENERAL
           {ACCESS_SHADER_READ} {ACCESS_SHADER_WRITE}]
        []
        {STAGE_FRAGMENT_SHADER} {STAGE_RAY_TRACING_SHADER},
      BindPipeline BIND_POINT_RAY_TRACING RayTracePipeline,
      PushConstants RayTracePipeline (RayTracePC (ray_trace_push_constants r c)),
      BindDescriptorSets BIND_POINT_RAY_TRACING RayTracePipeline
        [SceneDS, RayTraceWriteDS, PerFrameDS, GBufferOutputDS, SkyboxDS, BlueNoiseDS, DDGIReadDS]
        [ubo_size c * current_frame_idx (m_backend r), current_ubo_offset ddgi],
      TraceRays (m_width r) (m_height r) 1,
      SetImageLayout RayTraceImage LAYOUT_GENERAL LAYOUT_SHADER_READ_ONLY_OPTIMAL]"

subsection \<open>\<open>RayTracedReflections::reset_args\<close>\<close>

definition reset_args :: "RayTracedReflections \<Rightarrow> cmd list" where
  "reset_args r =
     [PipelineBarrier [] []
        [BufferMemoryBarrier DenoiseTileCoordsBuffer {ACCESS_SHADER_READ} {ACCESS_SHADER_WRITE},
         BufferMemoryBarrier DenoiseDispatchArgsBuffer
           {ACCESS_SHADER_READ, ACCESS_INDIRECT_COMMAND_READ} {ACCESS_SHADER_WRITE},
         BufferMemoryBarrier CopyTileCoordsBuffer {ACCESS_SHADER_READ} {ACCESS_SHADER_WRITE},
         BufferMemoryBarrier CopyDispatchArgsBuffer
           {ACCESS_SHADER_READ, ACCESS_INDIRECT_COMMAND_READ} {ACCESS_SHADER_WRITE}]
        {STAGE_COMPUTE_SHADER, STAGE_DRAW_INDIRECT} {STAGE_COMPUTE_SHADER},
      BindPipeline BIND_POINT_COMPUTE ResetArgsPipeline,
      BindDescriptorSets BIND_POINT_COMPUTE ResetArgsPipeline [IndirectBufferDS] [],
      Dispatch 1 1 1]"

subsection \<open>\<open>RayTracedReflections::temporal_accumulation\<close>\<close>

definition temporal_accumulation_push_constants ::
  "RayTracedReflections \<Rightarrow> CommonResources \<Rightarrow> TemporalAccumulationPushConstants" where
  "temporal_accumulation_push_constants r c =
     \<lparr>tapc_camera_delta = camera_delta c,
      tapc_frame_time = frame_time c,
      tapc_alpha = alpha (m_temporal_accumulation r),
      tapc_moments_alpha = moments_alpha (m_temporal_accumulation r),
      tapc_g_buffer_mip = int (m_g_buffer_mip r),
      tapc_approximate_with_ddgi =
        (if approximate_with_ddgi (m_ray_trace r) \<and> \<not> m_first_frame r then 1 else 0)\<rparr>"

definition temporal_accumulation_descriptor_sets ::
  "RayTracedReflections \<Rightarrow> CommonResources \<Rightarrow> descriptor_set list" where
  "temporal_accumulation_descriptor_sets r c =
     [CurrentWriteDS (slot (ping_pong c)),
      GBufferOutputDS,
      GBufferHistoryDS,
      RayTraceReadDS,
      (if blur_as_input (m_temporal_accumulation r)
       then PrevReadDS (slot (\<not> ping_pong c))
       else CurrentReadDS (slot (\<not> ping_pong c))),
      PerFrameDS,
      IndirectBufferDS]"

definition temporal_accumulation :: "RayTracedReflections \<Rightarrow> CommonResources \<Rightarrow> cmd list" where
  "temporal_accumulation r c =
     [PipelineBarrier
        [MemoryBarrier {ACCESS_SHADER_READ} {ACCESS_SHADER_WRITE}]
        [ImageMemoryBarrier (CurrentOutputImage (slot (ping_pong c)))
           LAYOUT_UNDEFINED LAYOUT_GENERAL {ACCESS_SHADER_READ} {ACCESS_SHADER_WRITE},
         ImageMemoryBarrier (CurrentMomentsImage (slot (ping_pong c)))
           LAYOUT_UNDEFINED LAYOUT_GENERAL {ACCESS_SHADER_READ} {ACCESS_SHADER_WRITE}]
        [BufferMemoryBarrier DenoiseTileCoordsBuffer {ACCESS_SHADER_WRITE} {ACCESS_SHADER_WRITE},
         BufferMemoryBarrier DenoiseDispatchArgsBuffer {ACCESS_SHADER_WRITE} {ACCESS_SHADER_WRITE},
         BufferMemoryBarrier CopyTileCoordsBuffer {ACCESS_SHADER_WRITE} {ACCESS_SHADER_WRITE},
         BufferMemoryBarrier CopyDispatchArgsBuffer {ACCESS_SHADER_WRITE} {ACCESS_SHADER_WRITE}]
        {STAGE_COMPUTE_SHADER} {STAGE_COMPUTE_SHADER},
      BindPipeline BIND_POINT_COMPUTE TemporalAccumulationPipeline,
      PushConstants TemporalAccumulationPipeline
        (TemporalAccumulationPC (temporal_accumulation_push_constants r c)),
      BindDescriptorSets BIND_POINT_COMPUTE TemporalAccumulationPipeline
        (temporal_accumulation_descriptor_sets r c)
        [ubo_size c * current_frame_idx (m_backend r)],
      Dispatch (ceil_div (m_width r) TEMPORAL_ACCUMULATION_NUM_THREADS_X)
               (ceil_div (m_height r) TEMPORAL_ACCUMULATION_NUM_THREADS_Y) 1,
      PipelineBarrier
        [MemoryBarrier {ACCESS_SHADER_WRITE} {ACCESS_SHADER_READ}]
        [ImageMemoryBarrier (CurrentOutputImage (slot (ping_pong c)))
           LAYOUT_GENERAL LAYOUT_SHADER_READ_ONLY_OPTIMAL {ACCESS_SHADER_WRITE} {ACCESS_SHADER_READ},
         ImageMemoryBarrier (CurrentMomentsImage (slot (ping_pong c)))
           LAYOUT_GENERAL LAYOUT_SHADER_READ_ONLY_OPTIMAL {ACCESS_SHADER_WRITE} {ACCESS_SHADER_READ}]
        [BufferMemoryBarrier DenoiseTileCoordsBuffer {ACCESS_SHADER_WRITE} {ACCESS_SHADER_READ},
         BufferMemoryBarrier DenoiseDispatchArgsBuffer
           {ACCESS_SHADER_WRITE} {ACCESS_INDIRECT_COMMAND_READ},
         BufferMemoryBarrier CopyTileCoordsBuffer {ACCESS_SHADER_WRITE} {ACCESS_SHADER_READ},
         BufferMemoryBarrier CopyDispatchArgsBuffer
           {ACCESS_SHADER_WRITE} {ACCESS_INDIRECT_COMMAND_READ}]
        {STAGE_COMPUTE_SHADER} {STAGE_COMPUTE_SHADER, STAGE_DRAW_INDIRECT}]"

subsection \<open>\<open>RayTracedReflections::a_trous_filter\<close>\<close>

text \<open>The locals \<open>ping_pong\<close>, \<open>read_idx\<close> and \<open>write_idx\<close> of the function, and the
  commands recorded so far.\<close>

record locals =
  local_ping_pong :: bool
  local_read_idx :: nat
  local_write_idx :: nat
  local_cmds :: "cmd list"

text \<open>The barrier at the head of the loop body, for the indices of this iteration.\<close>

definition a_trous_barrier :: "int \<Rightarrow> nat \<Rightarrow> nat \<Rightarrow> cmd list" where
  "a_trous_barrier i ridx widx =
     (if i = 0 then
        [PipelineBarrier
           [MemoryBarrier {ACCESS_SHADER_WRITE} {ACCESS_SHADER_READ}]
           [ImageMemoryBarrier (ATrousImage widx) LAYOUT_UNDEFINED LAYOUT_GENERAL
              {ACCESS_SHADER_READ} {ACCESS_SHADER_WRITE}]
           []
           {STAGE_COMPUTE_SHADER} {STAGE_COMPUTE_SHADER}]
      else
        [PipelineBarrier
           [MemoryBarrier {ACCESS_SHADER_WRITE} {ACCESS_SHADER_READ}]
           [ImageMemoryBarrier (ATrousImage ridx) LAYOUT_GENERAL LAYOUT_SHADER_READ_ONLY_OPTIMAL
              {ACCESS_SHADER_WRITE} {ACCESS_SHADER_READ},
            ImageMemoryBarrier (ATrousImage widx) LAYOUT_UNDEFINED LAYOUT_GENERAL
              {ACCESS_SHADER_READ} {ACCESS_SHADER_WRITE}]
           []
           {STAGE_COMPUTE_SHADER} {STAGE_COMPUTE_SHADER}])"

text \<open>The input descriptor set of an iteration, bound at set 1 by both of its passes.\<close>

definition a_trous_input_ds :: "CommonResources \<Rightarrow> int \<Rightarrow> nat \<Rightarrow> descriptor_set" where
  "a_trous_input_ds c i ridx =
     (if i = 0 then OutputOnlyReadDS (slot (ping_pong c)) else ATrousReadDS ridx)"

definition copy_tiles_cmds :: "CommonResources \<Rightarrow> int \<Rightarrow> nat \<Rightarrow> nat \<Rightarrow> cmd list" where
  "copy_tiles_cmds c i ridx widx =
     [BindPipeline BIND_POINT_COMPUTE CopyTilesPipeline,
      BindDescriptorSets BIND_POINT_COMPUTE CopyTilesPipeline
        [ATrousWriteDS widx, a_trous_input_ds c i ridx, IndirectBufferDS] [],
      DispatchIndirect CopyDispatchArgsBuffer]"

text \<open>\<open>1 << i\<close> on a 32-bit \<open>int\<close>. The loop counter is never negative.\<close>

definition step_size :: "int \<Rightarrow> 32 word" where
  "step_size i = push_bit (nat i) 1"

definition a_trous_push_constants :: "RayTracedReflections \<Rightarrow> int \<Rightarrow> ATrousFilterPushConstants" where
  "a_trous_push_constants r i =
     \<lparr>atpc_radius = radius (m_a_trous r),
      atpc_step_size = step_size i,
      atpc_phi_color = phi_color (m_a_trous r),
      atpc_phi_normal = phi_normal (m_a_trous r),
      atpc_sigma_depth = sigma_depth (m_a_trous r),
      atpc_g_buffer_mip = int (m_g_buffer_mip r),
      atpc_approximate_with_ddgi =
        (if approximate_with_ddgi (m_ray_trace r) \<and> \<not> m_first_frame r then 1 else 0)\<rparr>"

definition a_trous_dispatch_cmds ::
  "RayTracedReflections \<Rightarrow> CommonResources \<Rightarrow> int \<Rightarrow> nat \<Rightarrow> nat \<Rightarrow> cmd list" where
  "a_trous_dispatch_cmds r c i ridx widx =
     [BindPipeline BIND_POINT_COMPUTE ATrousPipeline,
      PushConstants ATrousPipeline (ATrousFilterPC (a_trous_push_constants r i)),
      BindDescriptorSets BIND_POINT_COMPUTE ATrousPipeline
        [ATrousWriteDS widx, a_trous_input_ds c i ridx, GBufferOutputDS, IndirectBufferDS] [],
      DispatchIndirect DenoiseDispatchArgsBuffer]"

text \<open>The copy into the temporal history image, at the feedback iteration.\<close>

definition feedback_cmds :: "RayTracedReflections \<Rightarrow> int \<Rightarrow> nat \<Rightarrow> cmd list" where
  "feedback_cmds r i widx =
     (if feedback_iteration (m_a_trous r) = i \<and> blur_as_input (m_temporal_accumulation r) then
        [SetImageLayout (ATrousImage widx) LAYOUT_GENERAL LAYOUT_TRANSFER_SRC_OPTIMAL,
         SetImageLayout PrevImage LAYOUT_SHADER_READ_ONLY_OPTIMAL LAYOUT_TRANSFER_DST_OPTIMAL,
         CopyImage (ATrousImage widx) LAYOUT_TRANSFER_SRC_OPTIMAL
           PrevImage LAYOUT_TRANSFER_DST_OPTIMAL (m_width r) (m_height r) 1,
         SetImageLayout (ATrousImage widx) LAYOUT_TRANSFER_SRC_OPTIMAL LAYOUT_GENERAL,
         SetImageLayout PrevImage LAYOUT_TRANSFER_DST_OPTIMAL LAYOUT_SHADER_READ_ONLY_OPTIMAL]
      else [])"

text \<open>The commands of one pass through the loop body, for the index \<open>i\<close> and the value
  of the local \<open>ping_pong\<close> on entry.\<close>

definition a_trous_iteration_cmds ::
  "RayTracedReflections \<Rightarrow> CommonResources \<Rightarrow> int \<Rightarrow> bool \<Rightarrow> cmd list" where
  "a_trous_iteration_cmds r c i pp =
     a_trous_barrier i (slot pp) (slot (\<not> pp))
     @ copy_tiles_cmds c i (slot pp) (slot (\<not> pp))
     @ a_trous_dispatch_cmds r c i (slot pp) (slot (\<not> pp))
     @ feedback_cmds r i (slot (\<not> pp))"

text \<open>The loop body: it sets the two indices from the local \<open>ping_pong\<close>, records the
  commands and flips \<open>ping_pong\<close>.\<close>

definition a_trous_iteration ::
  "RayTracedReflections \<Rightarrow> CommonResources \<Rightarrow> int \<Rightarrow> locals \<Rightarrow> locals" where
  "a_trous_iteration r c i st =
     \<lparr>local_ping_pong = \<not> local_ping_pong st,
      local_read_idx = slot (local_ping_pong st),
      local_write_idx = slot (\<not> local_ping_pong st),
      local_cmds = local_cmds st @ a_trous_iteration_cmds r c i (local_ping_pong st)\<rparr>"

text \<open>\<open>for (int i = ...; i < n; i++)\<close>, from any start index.\<close>

function a_trous_loop ::
  "RayTracedReflections \<Rightarrow> CommonResources \<Rightarrow> int \<Rightarrow> int \<Rightarrow> locals \<Rightarrow> locals" where
  "a_trous_loop r c i n st =
     (if i < n then a_trous_loop r c (i + 1) n (a_trous_iteration r c i st) else st)"
  by pat_completeness auto
termination
  by (relation "measure (\<lambda>(r, c, i, n, st). nat (n - i))") auto

declare a_trous_loop.simps [simp del]

definition a_trous_init :: locals where
  "a_trous_init = \<lparr>local_ping_pong = False, local_read_idx = 0, local_write_idx = 1, local_cmds = []\<rparr>"

definition a_trous_final_barrier :: "nat \<Rightarrow> cmd" where
  "a_trous_final_barrier widx =
     PipelineBarrier
       [MemoryBarrier {ACCESS_SHADER_WRITE} {ACCESS_SHADER_READ}]
       [ImageMemoryBarrier (ATrousImage widx) LAYOUT_GENERAL LAYOUT_SHADER_READ_ONLY_OPTIMAL
          {ACCESS_SHADER_WRITE} {ACCESS_SHADER_READ}]
       []
       {STAGE_COMPUTE_SHADER} {STAGE_FRAGMENT_SHADER, STAGE_COMPUTE_SHADER}"

definition a_trous_filter ::
  "RayTracedReflections \<Rightarrow> CommonResources \<Rightarrow> RayTracedReflections \<times> cmd list" where
  "a_trous_filter r c =
     (let st = a_trous_loop r c 0 (filter_iterations (m_a_trous r)) a_trous_init
      in (r\<lparr>m_a_trous := (m_a_trous r)\<lparr>read_idx := local_write_idx st\<rparr>\<rparr>,
          local_cmds st @ [a_trous_final_barrier (local_write_idx st)]))"

subsection \<open>\<open>RayTracedReflections::upsample\<close>\<close>

definition upsample :: "RayTracedReflections \<Rightarrow> cmd list" where
  "upsample r =
     [SetImageLayout UpsampleImage LAYOUT_UNDEFINED LAYOUT_GENERAL,
      BindPipeline BIND_POINT_COMPUTE UpsamplePipeline,
      PushConstants UpsamplePipeline (UpsamplePC \<lparr>uspc_g_buffer_mip = int (m_g_buffer_mip r)\<rparr>),
      BindDescriptorSets BIND_POINT_COMPUTE UpsamplePipeline
        [UpsampleWriteDS, ATrousReadDS (read_idx (m_a_trous r)), GBufferOutputDS] [],
      Dispatch (ceil_div (swap_chain_width (m_backend r)) 8)
               (ceil_div (swap_chain_height (m_backend r)) 8) 1,
      SetImageLayout UpsampleImage LAYOUT_GENERAL LAYOUT_SHADER_READ_ONLY_OPTIMAL]"

subsection \<open>\<open>RayTracedReflections::render\<close> and \<open>output_ds\<close>\<close>

definition render ::
  "RayTracedReflections \<Rightarrow> CommonResources \<Rightarrow> DDGI \<Rightarrow> RayTracedReflections \<times> cmd list" where
  "render r c ddgi =
     (let (r1, clear_cmds) = clear_images r c;
          trace_cmds = ray_trace r1 c ddgi
      in if m_denoise r1 then
           (let reset_cmds = reset_args r1;
                accumulation_cmds = temporal_accumulation r1 c;
                (r2, filter_cmds) = a_trous_filter r1 c;
                upsample_cmds =
                  (if m_scale r2 \<noteq> RAY_TRACE_SCALE_FULL_RES then upsample r2 else [])
            in (r2, clear_cmds @ trace_cmds @ reset_cmds @ accumulation_cmds
                    @ filter_cmds @ upsample_cmds))
         else (r1, clear_cmds @ trace_cmds))"

definition output_ds :: "RayTracedReflections \<Rightarrow> CommonResources \<Rightarrow> descriptor_set" where
  "output_ds r c =
     (if m_denoise r then
        (if m_current_output r = OUTPUT_RAY_TRACE then RayTraceReadDS
         else if m_current_output r = OUTPUT_TEMPORAL_ACCUMULATION
           then OutputOnlyReadDS (slot (ping_pong c))
         else if m_current_output r = OUTPUT_ATROUS then ATrousReadDS (read_idx (m_a_trous r))
         else (if m_scale r = RAY_TRACE_SCALE_FULL_RES
               then ATrousReadDS (read_idx (m_a_trous r))
               else UpsampleReadDS))
      else RayTraceReadDS)"

subsection \<open>The end of \<open>HybridRendering::update\<close>\<close>

text \<open>After the command buffer is submitted: \<open>num_frames++\<close>, the global \<open>first_frame\<close>
  is reset and \<open>ping_pong\<close> flips.\<close>

definition end_frame :: "CommonResources \<Rightarrow> CommonResources" where
  "end_frame c =
     (let c1 = c\<lparr>num_frames := num_frames c + 1\<rparr>;
          c2 = (if first_frame c1 then c1\<lparr>first_frame := False\<rparr> else c1)
      in c2\<lparr>ping_pong := \<not> ping_pong c2\<rparr>)"

text \<open>One frame of the denoiser: its \<open>render\<close>, then the end of \<open>update\<close>.\<close>

definition frame ::
  "RayTracedReflections \<times> CommonResources \<Rightarrow> DDGI \<Rightarrow>
   (RayTracedReflections \<times> CommonResources) \<times> cmd list" where
  "frame rc ddgi =
     (let (r2, cmds) = render (fst rc) (snd rc) ddgi in ((r2, end_frame (snd rc)), cmds))"

subsection \<open>\<open>RayTracedReflections::gui\<close> and the output selection of the main window\<close>

text \<open>What the widgets store this frame. A check box or an input field stores into its
  member; the two intensity sliders exist only while their check box is set.
  \<open>in_current_output\<close> is the selection that \<open>HybridRendering::update\<close> passes to
  \<open>set_current_output\<close>.\<close>

record gui_input =
  in_denoise :: bool
  in_blur_as_input :: bool
  in_sample_gi :: bool
  in_gi_intensity :: float
  in_approximate_with_ddgi :: bool
  in_rough_ddgi_intensity :: float
  in_ibl_indirect_specular_intensity :: float
  in_bias :: float
  in_trim :: float
  in_alpha :: float
  in_moments_alpha :: float
  in_phi_color :: float
  in_phi_normal :: float
  in_sigma_depth :: float
  in_current_output :: OutputType

definition gui :: "gui_input \<Rightarrow> RayTracedReflections \<Rightarrow> RayTracedReflections" where
  "gui u r =
     r\<lparr>m_denoise := in_denoise u,
       m_current_output := in_current_output u,
       m_temporal_accumulation :=
         \<lparr>alpha = in_alpha u, moments_alpha = in_moments_alpha u,
          blur_as_input = in_blur_as_input u\<rparr>,
       m_ray_trace :=
         \<lparr>bias = in_bias u,
          trim = in_trim u,
          sample_gi = in_sample_gi u,
          approximate_with_ddgi = in_approximate_with_ddgi u,
          gi_intensity =
            (if in_sample_gi u then in_gi_intensity u else gi_intensity (m_ray_trace r)),
          rough_ddgi_intensity =
            (if in_approximate_with_ddgi u then in_rough_ddgi_intensity u
             else rough_ddgi_intensity (m_ray_trace r)),
          ibl_indirect_specular_intensity = in_ibl_indirect_specular_intensity u\<rparr>,
       m_a_trous :=
         (m_a_trous r)\<lparr>phi_color := in_phi_color u, phi_normal := in_phi_normal u,
                       sigma_depth := in_sigma_depth u\<rparr>\<rparr>"

text \<open>A run of frames of one instance: each frame takes the user's input, renders and
  ends the frame. The result is the state after the run and the commands of each frame.\<close>

fun run ::
  "RayTracedReflections \<times> CommonResources \<Rightarrow> DDGI \<Rightarrow> gui_input list \<Rightarrow>
   (RayTracedReflections \<times> CommonResources) \<times> cmd list list" where
  "run rc ddgi [] = (rc, [])"
| "run rc ddgi (u # us) =
     (let (rc1, cmds) = frame (gui u (fst rc), snd rc) ddgi;
          (rc2, rest) = run rc1 ddgi us
      in (rc2, cmds # rest))"

section \<open>What a command buffer does\<close>

text \<open>A dispatch or a ray trace runs the pipeline bound at its bind point, on the
  descriptor sets bound there, with the push constants last pushed for that pipeline's
  layout.\<close>

record bindings =
  compute_pipeline :: "pipeline option"
  compute_sets :: "descriptor_set list"
  ray_tracing_pipeline :: "pipeline option"
  ray_tracing_sets :: "descriptor_set list"
  pushed :: "(pipeline \<times> push_constants) option"

datatype work = Dispatched nat nat nat | DispatchedIndirect buffer | TracedRays nat nat nat

record pass =
  pass_pipeline :: "pipeline option"
  pass_sets :: "descriptor_set list"
  pass_push :: "push_constants option"
  pass_work :: work

datatype event =
    Pass pass
  | Cleared image "float \<times> float \<times> float \<times> float"
  | Copied image image

fun bind :: "cmd \<Rightarrow> bindings \<Rightarrow> bindings" where
  "bind (BindPipeline BIND_POINT_COMPUTE p) b = b\<lparr>compute_pipeline := Some p\<rparr>"
| "bind (BindPipeline BIND_POINT_RAY_TRACING p) b = b\<lparr>ray_tracing_pipeline := Some p\<rparr>"
| "bind (BindDescriptorSets BIND_POINT_COMPUTE p ds offs) b = b\<lparr>compute_sets := ds\<rparr>"
| "bind (BindDescriptorSets BIND_POINT_RAY_TRACING p ds offs) b = b\<lparr>ray_tracing_sets := ds\<rparr>"
| "bind (PushConstants p pc) b = b\<lparr>pushed := Some (p, pc)\<rparr>"
| "bind x b = b"

definition push_for :: "bindings \<Rightarrow> pipeline option \<Rightarrow> push_constants option" where
  "push_for b p =
     (case pushed b of
        None \<Rightarrow> None
      | Some (q, pc) \<Rightarrow> (if p = Some q then Some pc else None))"

fun event_of :: "bindings \<Rightarrow> cmd \<Rightarrow> event option" where
  "event_of b (Dispatch x y z) =
     Some (Pass \<lparr>pass_pipeline = compute_pipeline b, pass_sets = compute_sets b,
                 pass_push = push_for b (compute_pipeline b), pass_work = Dispatched x y z\<rparr>)"
| "event_of b (DispatchIndirect buf) =
     Some (Pass \<lparr>pass_pipeline = compute_pipeline b, pass_sets = compute_sets b,
                 pass_push = push_for b (compute_pipeline b),
                 pass_work = DispatchedIndirect buf\<rparr>)"
| "event_of b (TraceRays w h d) =
     Some (Pass \<lparr>pass_pipeline = ray_tracing_pipeline b, pass_sets = ray_tracing_sets b,
                 pass_push = push_for b (ray_tracing_pipeline b),
                 pass_work = TracedRays w h d\<rparr>)"
| "event_of b (ClearColorImage img l col) = Some (Cleared img col)"
| "event_of b (CopyImage src sl dst dl w h d) = Some (Copied src dst)"
| "event_of b x = None"

fun events :: "bindings \<Rightarrow> cmd list \<Rightarrow> event list" where
  "events b [] = []"
| "events b (x # xs) =
     (case event_of b x of
        None \<Rightarrow> events (bind x b) xs
      | Some e \<Rightarrow> e # events (bind x b) xs)"

definition bind_all :: "bindings \<Rightarrow> cmd list \<Rightarrow> bindings" where
  "bind_all b xs = fold bind xs b"

fun passes :: "event list \<Rightarrow> pass list" where
  "passes [] = []"
| "passes (Pass p # es) = p # passes es"
| "passes (e # es) = passes es"

text \<open>The contents of a resource, as far as the host code determines them: what it held
  before, a clear colour, or what a pass wrote there, given by the pass and the contents
  of everything the pass had bound. A copy carries the contents over. Layout transitions
  and barriers leave the contents alone.\<close>

datatype content =
    Initial resource
  | ClearedTo "float \<times> float \<times> float \<times> float"
  | Shaded pass resource "content list"

type_synonym store = "resource \<Rightarrow> content"

definition pass_reads :: "pass \<Rightarrow> resource list" where
  "pass_reads p =
     concat (map ds_resources (pass_sets p))
     @ (case pass_work p of DispatchedIndirect buf \<Rightarrow> [Buf buf] | _ \<Rightarrow> [])"

definition pass_writes :: "pass \<Rightarrow> resource list" where
  "pass_writes p = concat (map ds_resources (filter is_storage (pass_sets p)))"

fun apply_event :: "event \<Rightarrow> store \<Rightarrow> store" where
  "apply_event (Pass p) s =
     (\<lambda>x. if x \<in> set (pass_writes p) then Shaded p x (map s (pass_reads p)) else s x)"
| "apply_event (Cleared img col) s = s(Img img := ClearedTo col)"
| "apply_event (Copied src dst) s = s(Img dst := s (Img src))"

definition exec :: "bindings \<Rightarrow> cmd list \<Rightarrow> store \<Rightarrow> store" where
  "exec b xs s = fold apply_event (events b xs) s"

text \<open>The resources that an event writes.\<close>

fun event_writes :: "event \<Rightarrow> resource list" where
  "event_writes (Pass p) = pass_writes p"
| "event_writes (Cleared img col) = [Img img]"
| "event_writes (Copied src dst) = [Img dst]"

definition written :: "bindings \<Rightarrow> cmd list \<Rightarrow> resource set" where
  "written b xs = set (concat (map event_writes (events b xs)))"


section \<open>What the copy-tiles and A-Trous shaders compute\<close>

text \<open>
  The two compute shaders of the filter stage are not part of the host code. Their
  effect on the images is taken from the design document of the denoiser: sections 4.1
  to 4.3, the numeric-degeneracy rule of section 7 and the tile-coverage property of
  section 8. An image is seen as one colour channel over the pixel grid, with real
  values; every channel is treated alike.
\<close>

type_synonym pixel = "int \<times> int"

type_synonym picture = "pixel \<Rightarrow> real"

type_synonym pictures = "image \<Rightarrow> picture"

text \<open>Modelled from the spec: the tile classification that the temporal accumulation
  of the frame leaves in the two tile lists, and the three edge-stopping weights of the
  A-Trous shader (the shaders and the G-buffer are missing from the sources).
  \<open>needs_filter\<close> holds of the tiles in the full-denoise list; every other tile is in
  the copy-only list, since the two lists cover every tile exactly once. The colour
  weight depends on the input picture, on the centre and on the tap; the normal and the
  depth weight depend on the centre and on the tap.\<close>

record shading =
  needs_filter :: "pixel \<Rightarrow> bool"
  color_weight :: "picture \<Rightarrow> pixel \<Rightarrow> pixel \<Rightarrow> real"
  normal_weight :: "pixel \<Rightarrow> pixel \<Rightarrow> real"
  depth_weight :: "pixel \<Rightarrow> pixel \<Rightarrow> real"

text \<open>Modelled from the spec: the tile of a pixel, for the 8 by 8 tiles of the
  classification (the shader that forms them is missing).\<close>

definition tile_of :: "pixel \<Rightarrow> pixel" where
  "tile_of p =
     (fst p div int TEMPORAL_ACCUMULATION_NUM_THREADS_X,
      snd p div int TEMPORAL_ACCUMULATION_NUM_THREADS_Y)"

text \<open>Modelled from the spec: the taps of the A-Trous kernel (the shader is missing), a
  square of the given radius around the centre, its taps \<open>step\<close> texels apart.\<close>

definition kernel_taps :: "int \<Rightarrow> int \<Rightarrow> pixel \<Rightarrow> pixel list" where
  "kernel_taps rad step p =
     concat (map (\<lambda>dy. map (\<lambda>dx. (fst p + dx * step, snd p + dy * step)) [- rad..rad])
               [- rad..rad])"

text \<open>Modelled from the spec: the weight of a tap in the A-Trous shader (missing), the
  product of the colour, the normal and the depth weight.\<close>

definition tap_weight :: "shading \<Rightarrow> picture \<Rightarrow> pixel \<Rightarrow> pixel \<Rightarrow> real" where
  "tap_weight sh inp p q = color_weight sh inp p q * normal_weight sh p q * depth_weight sh p q"

text \<open>Modelled from the spec: the output pixel of the A-Trous shader (missing), the
  weighted sum of the taps divided by the total weight, and, as the fallback that
  section 7 asks for, the unfiltered value where the total weight is zero.\<close>

definition filtered :: "shading \<Rightarrow> picture \<Rightarrow> int \<Rightarrow> int \<Rightarrow> pixel \<Rightarrow> real" where
  "filtered sh inp rad step p =
     (let taps = kernel_taps rad step p;
          total = sum_list (map (tap_weight sh inp p) taps)
      in if total = 0 then inp p
         else sum_list (map (\<lambda>q. tap_weight sh inp p q * inp q) taps) / total)"

text \<open>Modelled from the spec: the A-Trous shader (missing). It is dispatched over the
  tiles of the full-denoise list and writes the filtered value there; the other pixels of
  the output image keep what they held.\<close>

definition a_trous_shader :: "shading \<Rightarrow> int \<Rightarrow> int \<Rightarrow> picture \<Rightarrow> picture \<Rightarrow> picture" where
  "a_trous_shader sh rad step inp out =
     (\<lambda>p. if needs_filter sh (tile_of p) then filtered sh inp rad step p else out p)"

text \<open>Modelled from the spec: the copy-tiles shader (missing). It is dispatched over the
  tiles of the copy-only list and forwards the unfiltered value there.\<close>

definition copy_tiles_shader :: "shading \<Rightarrow> picture \<Rightarrow> picture \<Rightarrow> picture" where
  "copy_tiles_shader sh inp out =
     (\<lambda>p. if needs_filter sh (tile_of p) then out p else inp p)"

text \<open>The image behind a descriptor set that holds one image.\<close>

definition ds_image :: "descriptor_set \<Rightarrow> image option" where
  "ds_image d = (case ds_resources d of [Img img] \<Rightarrow> Some img | _ \<Rightarrow> None)"

text \<open>Modelled from the spec: what a pass of the filter stage does to the pictures (the
  shaders are missing). Both pipeline layouts have the storage image that the shader
  writes at set 0 and the sampled input at set 1; the radius and the step size reach the
  A-Trous shader as push constants. The pass of any other pipeline has no result here.\<close>

definition run_pass :: "shading \<Rightarrow> pass \<Rightarrow> pictures \<Rightarrow> pictures option" where
  "run_pass sh p P =
     (if pass_pipeline p = Some CopyTilesPipeline then
        (case map ds_image (take 2 (pass_sets p)) of
           [Some out, Some inp] \<Rightarrow> Some (P(out := copy_tiles_shader sh (P inp) (P out)))
         | _ \<Rightarrow> None)
      else if pass_pipeline p = Some ATrousPipeline then
        (case (map ds_image (take 2 (pass_sets p)), pass_push p) of
           ([Some out, Some inp], Some (ATrousFilterPC pc)) \<Rightarrow>
             Some (P(out := a_trous_shader sh (atpc_radius pc) (sint (atpc_step_size pc))
                              (P inp) (P out)))
         | _ \<Rightarrow> None)
      else None)"

text \<open>A copy carries the picture over. A clear has no result here: it does not occur in
  the filter stage.\<close>

fun run_event :: "shading \<Rightarrow> event \<Rightarrow> pictures \<Rightarrow> pictures option" where
  "run_event sh (Pass p) P = run_pass sh p P"
| "run_event sh (Copied src dst) P = Some (P(dst := P src))"
| "run_event sh (Cleared img col) P = None"

fun run_events :: "shading \<Rightarrow> event list \<Rightarrow> pictures \<Rightarrow> pictures option" where
  "run_events sh [] P = Some P"
| "run_events sh (e # es) P =
     (case run_event sh e P of None \<Rightarrow> None | Some P' \<Rightarrow> run_events sh es P')"
section \<open>Observing a command buffer\<close>

text \<open>The images that a list of events clears, with their clear colours.\<close>

fun cleared :: "event list \<Rightarrow> (image \<times> float \<times> float \<times> float \<times> float) list" where
  "cleared [] = []"
| "cleared (Cleared img col # es) = (img, col) # cleared es"
| "cleared (e # es) = cleared es"

text \<open>The step size that a pass runs with, when its push constants are those of the
  A-Trous filter.\<close>

definition step_size_of :: "pass \<Rightarrow> 32 word option" where
  "step_size_of p =
     (case pass_push p of Some (ATrousFilterPC pc) \<Rightarrow> Some (atpc_step_size pc) | _ \<Rightarrow> None)"

text \<open>The global-illumination flags among the push constants of a pass: \<open>sample_gi\<close> and
  \<open>approximate_with_ddgi\<close> for the ray trace, \<open>approximate_with_ddgi\<close> for temporal
  accumulation and for the A-Trous filter.\<close>

fun gi_flags :: "push_constants \<Rightarrow> int list" where
  "gi_flags (RayTracePC pc) = [rtpc_sample_gi pc, rtpc_approximate_with_ddgi pc]"
| "gi_flags (TemporalAccumulationPC pc) = [tapc_approximate_with_ddgi pc]"
| "gi_flags (ATrousFilterPC pc) = [atpc_approximate_with_ddgi pc]"
| "gi_flags (UpsamplePC pc) = []"

text \<open>A command buffer in which nothing is bound yet.\<close>

definition no_bindings :: bindings where
  "no_bindings =
     \<lparr>compute_pipeline = None, compute_sets = [], ray_tracing_pipeline = None,
      ray_tracing_sets = [], pushed = None\<rparr>"

section \<open>Auxiliary definitions for the proofs\<close>

text \<open>The locals of \<open>a_trous_filter\<close> after \<open>k\<close> passes through the loop body, that is,
  on entry to iteration \<open>k\<close>.\<close>

fun loop_state :: "RayTracedReflections \<Rightarrow> CommonResources \<Rightarrow> nat \<Rightarrow> locals" where
  "loop_state r c 0 = a_trous_init"
| "loop_state r c (Suc k) = a_trous_iteration r c (int k) (loop_state r c k)"

text \<open>The value of the local \<open>write_idx\<close> when the loop has run \<open>n\<close> times.\<close>

definition final_write_idx :: "int \<Rightarrow> nat" where
  "final_write_idx n = (if n \<le> 0 then 1 else nat (n mod 2))"

text \<open>The passes that the member functions turn out to record; the lemmas below derive
  them from the recorded commands.\<close>

definition ray_trace_pass :: "RayTracedReflections \<Rightarrow> CommonResources \<Rightarrow> pass" where
  "ray_trace_pass r c =
     \<lparr>pass_pipeline = Some RayTracePipeline,
      pass_sets = [SceneDS, RayTraceWriteDS, PerFrameDS, GBufferOutputDS, SkyboxDS, BlueNoiseDS, DDGIReadDS],
      pass_push = Some (RayTracePC (ray_trace_push_constants r c)),
      pass_work = TracedRays (m_width r) (m_height r) 1\<rparr>"

definition reset_args_pass :: "pass" where
  "reset_args_pass =
     \<lparr>pass_pipeline = Some ResetArgsPipeline, pass_sets = [IndirectBufferDS],
      pass_push = None, pass_work = Dispatched 1 1 1\<rparr>"

definition temporal_accumulation_pass :: "RayTracedReflections \<Rightarrow> CommonResources \<Rightarrow> pass" where
  "temporal_accumulation_pass r c =
     \<lparr>pass_pipeline = Some TemporalAccumulationPipeline,
      pass_sets = temporal_accumulation_descriptor_sets r c,
      pass_push = Some (TemporalAccumulationPC (temporal_accumulation_push_constants r c)),
      pass_work = Dispatched (ceil_div (m_width r) TEMPORAL_ACCUMULATION_NUM_THREADS_X)
                    (ceil_div (m_height r) TEMPORAL_ACCUMULATION_NUM_THREADS_Y) 1\<rparr>"

definition upsample_pass :: "RayTracedReflections \<Rightarrow> pass" where
  "upsample_pass r =
     \<lparr>pass_pipeline = Some UpsamplePipeline,
      pass_sets = [UpsampleWriteDS, ATrousReadDS (read_idx (m_a_trous r)), GBufferOutputDS],
      pass_push = Some (UpsamplePC \<lparr>uspc_g_buffer_mip = int (m_g_buffer_mip r)\<rparr>),
      pass_work = Dispatched (ceil_div (swap_chain_width (m_backend r)) 8)
                    (ceil_div (swap_chain_height (m_backend r)) 8) 1\<rparr>"

definition copy_tiles_pass :: "CommonResources \<Rightarrow> int \<Rightarrow> bool \<Rightarrow> pass" where
  "copy_tiles_pass c i pp =
     \<lparr>pass_pipeline = Some CopyTilesPipeline,
      pass_sets = [ATrousWriteDS (slot (\<not> pp)), a_trous_input_ds c i (slot pp), IndirectBufferDS],
      pass_push = None,
      pass_work = DispatchedIndirect CopyDispatchArgsBuffer\<rparr>"

definition a_trous_pass :: "RayTracedReflections \<Rightarrow> CommonResources \<Rightarrow> int \<Rightarrow> bool \<Rightarrow> pass" where
  "a_trous_pass r c i pp =
     \<lparr>pass_pipeline = Some ATrousPipeline,
      pass_sets = [ATrousWriteDS (slot (\<not> pp)), a_trous_input_ds c i (slot pp), GBufferOutputDS, IndirectBufferDS],
      pass_push = Some (ATrousFilterPC (a_trous_push_constants r i)),
      pass_work = DispatchedIndirect DenoiseDispatchArgsBuffer\<rparr>"

text \<open>The events of one iteration: its two passes, and the copy at the feedback
  iteration.\<close>

definition iteration_events :: "RayTracedReflections \<Rightarrow> CommonResources \<Rightarrow> int \<Rightarrow> bool \<Rightarrow> event list" where
  "iteration_events r c i pp =
     [Pass (copy_tiles_pass c i pp), Pass (a_trous_pass r c i pp)]
     @ (if feedback_iteration (m_a_trous r) = i \<and> blur_as_input (m_temporal_accumulation r)
        then [Copied (ATrousImage (slot (\<not> pp))) PrevImage] else [])"

text \<open>No push constants are pending for the layout of the copy-tiles pipeline, which
  has no push-constant range.\<close>

definition no_copy_push :: "bindings \<Rightarrow> bool" where
  "no_copy_push b = (push_for b (Some CopyTilesPipeline) = None)"

text \<open>The resources written by a list of events.\<close>

definition all_written :: "event list \<Rightarrow> resource set" where
  "all_written es = set (concat (map event_writes es))"

text \<open>The image that iteration \<open>i\<close> has bound as its input, and the pictures after an
  iteration that hands its input on unchanged, with the copy into the history image at
  the feedback iteration.\<close>

definition iteration_input :: "CommonResources \<Rightarrow> int \<Rightarrow> bool \<Rightarrow> image" where
  "iteration_input c i pp =
     (if i = 0 then CurrentOutputImage (slot (ping_pong c)) else ATrousImage (slot pp))"

definition after_iteration ::
  "RayTracedReflections \<Rightarrow> CommonResources \<Rightarrow> int \<Rightarrow> bool \<Rightarrow> pictures \<Rightarrow> pictures" where
  "after_iteration r c i pp P =
     (let P1 = P(ATrousImage (slot (\<not> pp)) := P (iteration_input c i pp))
      in if feedback_iteration (m_a_trous r) = i \<and> blur_as_input (m_temporal_accumulation r)
         then P1(PrevImage := P1 (ATrousImage (slot (\<not> pp)))) else P1)"

section \<open>Concrete instances\<close>

text \<open>A half-resolution instance on a 1280 by 720 swap chain, freshly constructed, with
  denoising and both global-illumination flags switched on and four filter iterations,
  in the first frame of the application. The floats are bit patterns (\<open>0x3F800000\<close> is
  1.0).\<close>

definition example_backend :: Backend where
  "example_backend = \<lparr>swap_chain_width = 1280, swap_chain_height = 720, current_frame_idx = 1\<rparr>"

definition example_defaults :: RayTracedReflections where
  "example_defaults =
     \<lparr>m_backend = example_backend,
      m_scale = RAY_TRACE_SCALE_FULL_RES,
      m_g_buffer_mip = 0,
      m_width = 0,
      m_height = 0,
      m_first_frame = True,
      m_denoise = True,
      m_current_output = OUTPUT_UPSAMPLE,
      m_ray_trace =
        \<lparr>bias = 0x3DCCCCCD, trim = 0x3F4CCCCD, sample_gi = True, approximate_with_ddgi = True,
         gi_intensity = 0x3F000000, rough_ddgi_intensity = 0x3F000000,
         ibl_indirect_specular_intensity = 0x3D4CCCCD\<rparr>,
      m_temporal_accumulation =
        \<lparr>alpha = 0x3C23D70A, moments_alpha = 0x3E4CCCCD, blur_as_input = False\<rparr>,
      m_a_trous =
        \<lparr>radius = 1, filter_iterations = 4, feedback_iteration = 0,
         phi_color = 0x41200000, phi_normal = 0x42000000, sigma_depth = 0x3F800000,
         read_idx = 0\<rparr>\<rparr>"

definition example_reflections :: RayTracedReflections where
  "example_reflections = construct example_defaults example_backend RAY_TRACE_SCALE_HALF_RES"

definition example_common :: CommonResources where
  "example_common =
     \<lparr>ping_pong = False, first_frame = True, num_frames = 0, camera_delta = (0, 0, 0),
      frame_time = 0x3C888889, ubo_size = 256\<rparr>"

definition example_ddgi :: DDGI where
  "example_ddgi = \<lparr>current_ubo_offset = 512\<rparr>"

text \<open>The same instance at full resolution, after its first frame, and with denoising
  switched off.\<close>

definition full_resolution :: RayTracedReflections where
  "full_resolution = construct example_defaults example_backend RAY_TRACE_SCALE_FULL_RES"

definition steady_reflections :: RayTracedReflections where
  "steady_reflections = example_reflections\<lparr>m_first_frame := False\<rparr>"

definition no_denoise :: RayTracedReflections where
  "no_denoise = example_reflections\<lparr>m_denoise := False\<rparr>"

text \<open>The same instance with zero, one, two and thirty-two filter iterations; the one with
  zero iterations has the A-Trous output selected.\<close>

definition zero_iterations :: RayTracedReflections where
  "zero_iterations =
     example_reflections\<lparr>m_current_output := OUTPUT_ATROUS,
       m_a_trous := (m_a_trous example_reflections)\<lparr>filter_iterations := 0\<rparr>\<rparr>"

definition one_iteration :: RayTracedReflections where
  "one_iteration =
     example_reflections\<lparr>m_a_trous := (m_a_trous example_reflections)\<lparr>filter_iterations := 1\<rparr>\<rparr>"

definition two_iterations :: RayTracedReflections where
  "two_iterations =
     example_reflections\<lparr>m_a_trous := (m_a_trous example_reflections)\<lparr>filter_iterations := 2\<rparr>\<rparr>"

definition many_iterations :: RayTracedReflections where
  "many_iterations =
     example_reflections\<lparr>m_a_trous := (m_a_trous example_reflections)\<lparr>filter_iterations := 32\<rparr>\<rparr>"

text \<open>The same instance with the feedback copy enabled at its last iteration.\<close>

definition feedback_last :: RayTracedReflections where
  "feedback_last =
     example_reflections
       \<lparr>m_temporal_accumulation :=
          (m_temporal_accumulation example_reflections)\<lparr>blur_as_input := True\<rparr>,
        m_a_trous := (m_a_trous example_reflections)\<lparr>feedback_iteration := 3\<rparr>\<rparr>"

text \<open>What the user interface stores in a frame of the example run.\<close>

definition example_input :: gui_input where
  "example_input =
     \<lparr>in_denoise = True, in_blur_as_input = True, in_sample_gi = True,
      in_gi_intensity = 0x3F000000, in_approximate_with_ddgi = False,
      in_rough_ddgi_intensity = 0x3F000000, in_ibl_indirect_specular_intensity = 0x3D4CCCCD,
      in_bias = 0x3DCCCCCD, in_trim = 0x3F4CCCCD, in_alpha = 0x3C23D70A,
      in_moments_alpha = 0x3E4CCCCD, in_phi_color = 0x41200000, in_phi_normal = 0x42000000,
      in_sigma_depth = 0x3F800000, in_current_output = OUTPUT_ATROUS\<rparr>"

text \<open>A filter of radius 0 with three iterations, and one of radius 0 with none, both with
  the A-Trous output selected.\<close>

definition radius_zero :: RayTracedReflections where
  "radius_zero =
     example_reflections\<lparr>m_current_output := OUTPUT_ATROUS,
       m_a_trous := (m_a_trous example_reflections)\<lparr>radius := 0, filter_iterations := 3\<rparr>\<rparr>"

definition radius_zero_no_iterations :: RayTracedReflections where
  "radius_zero_no_iterations =
     example_reflections\<lparr>m_current_output := OUTPUT_ATROUS,
       m_a_trous := (m_a_trous example_reflections)\<lparr>radius := 0, filter_iterations := 0\<rparr>\<rparr>"

text \<open>A classification that sends every other column of tiles to the filter, with all
  weights 1; and pictures in which the temporal-accumulation outputs hold a ramp and
  every other image is black.\<close>

definition example_shading :: shading where
  "example_shading =
     \<lparr>needs_filter = (\<lambda>t. even (fst t)),
      color_weight = (\<lambda>inp p q. 1),
      normal_weight = (\<lambda>p q. 1),
      depth_weight = (\<lambda>p q. 1)\<rparr>"

definition example_pictures :: pictures where
  "example_pictures img p =
     (case img of CurrentOutputImage n \<Rightarrow> real_of_int (fst p) + 1 | _ \<Rightarrow> 0)"
section \<open>Lemmas\<close>

subsection \<open>The loop of \<open>a_trous_filter\<close>\<close>

lemma a_trous_loop_stop: "n \<le> i \<Longrightarrow> a_trous_loop r c i n st = st"
  by (simp add: a_trous_loop.simps)

lemma a_trous_loop_step:
  "i < n \<Longrightarrow> a_trous_loop r c i n st = a_trous_loop r c (i + 1) n (a_trous_iteration r c i st)"
  by (subst a_trous_loop.simps) simp

lemma a_trous_loop_last:
  "i < n \<Longrightarrow> a_trous_loop r c i n st = a_trous_iteration r c (n - 1) (a_trous_loop r c i (n - 1) st)"
proof (induction r c i n st rule: a_trous_loop.induct)
  case (1 r c i n st)
  show ?case
  proof (cases "i + 1 < n")
    case True
    then have "a_trous_loop r c i n st = a_trous_loop r c (i + 1) n (a_trous_iteration r c i st)"
      using "1.prems" by (simp add: a_trous_loop_step)
    also have "\<dots> = a_trous_iteration r c (n - 1) (a_trous_loop r c (i + 1) (n - 1) (a_trous_iteration r c i st))"
      using "1.IH" "1.prems" True by simp
    also have "a_trous_loop r c (i + 1) (n - 1) (a_trous_iteration r c i st) = a_trous_loop r c i (n - 1) st"
      using True by (simp add: a_trous_loop_step [of i "n - 1"])
    finally show ?thesis .
  next
    case False
    then have eq: "n = i + 1" using "1.prems" by simp
    show ?thesis
      by (simp add: eq a_trous_loop_step a_trous_loop_stop)
  qed
qed

lemma a_trous_loop_split:
  "i \<le> k \<Longrightarrow> k \<le> n \<Longrightarrow> a_trous_loop r c i n st = a_trous_loop r c k n (a_trous_loop r c i k st)"
proof (induction r c i k st rule: a_trous_loop.induct)
  case (1 r c i k st)
  show ?case
  proof (cases "i < k")
    case True
    then show ?thesis
      using "1.IH" "1.prems" by (simp add: a_trous_loop_step)
  next
    case False
    then show ?thesis using "1.prems" by (simp add: a_trous_loop_stop)
  qed
qed

lemma a_trous_loop_state: "a_trous_loop r c 0 (int k) a_trous_init = loop_state r c k"
proof (induction k)
  case 0
  show ?case by (simp add: a_trous_loop_stop)
next
  case (Suc k)
  have "a_trous_loop r c 0 (int (Suc k)) a_trous_init
        = a_trous_iteration r c (int (Suc k) - 1) (a_trous_loop r c 0 (int (Suc k) - 1) a_trous_init)"
    by (rule a_trous_loop_last) simp
  then show ?case using Suc by simp
qed

lemma loop_state_ping_pong: "local_ping_pong (loop_state r c k) = odd k"
  by (induction k) (simp_all add: a_trous_init_def a_trous_iteration_def)

lemma loop_state_write_idx:
  "local_write_idx (loop_state r c k) = (if k = 0 then 1 else k mod 2)"
  by (cases k) (auto simp: a_trous_init_def a_trous_iteration_def loop_state_ping_pong slot_def
       odd_iff_mod_2_eq_one mod_Suc)

lemma loop_state_read_idx:
  "local_read_idx (loop_state r c k) = (if k = 0 then 0 else (k - 1) mod 2)"
  by (cases k) (auto simp: a_trous_init_def a_trous_iteration_def loop_state_ping_pong slot_def
       odd_iff_mod_2_eq_one)

lemma loop_state_cmds:
  "local_cmds (loop_state r c k)
     = concat (map (\<lambda>j. a_trous_iteration_cmds r c (int j) (odd j)) [0..<k])"
  by (induction k) (simp_all add: a_trous_init_def a_trous_iteration_def loop_state_ping_pong)

subsection \<open>Commands, events and stores\<close>

lemma bind_all_Nil [simp]: "bind_all b [] = b"
  by (simp add: bind_all_def)

lemma bind_all_Cons [simp]: "bind_all b (x # xs) = bind_all (bind x b) xs"
  by (simp add: bind_all_def)

lemma bind_all_append: "bind_all b (xs @ ys) = bind_all (bind_all b xs) ys"
  by (simp add: bind_all_def)

lemma events_append: "events b (xs @ ys) = events b xs @ events (bind_all b xs) ys"
  by (induction xs arbitrary: b) (auto split: option.splits)

lemma passes_append: "passes (es @ fs) = passes es @ passes fs"
  by (induction es rule: passes.induct) auto

lemma exec_append: "exec b (xs @ ys) s = exec (bind_all b xs) ys (exec b xs s)"
  by (simp add: exec_def events_append)

lemma written_append: "written b (xs @ ys) = written b xs \<union> written (bind_all b xs) ys"
  by (simp add: written_def events_append)

lemma exec_unwritten: "x \<notin> written b xs \<Longrightarrow> exec b xs s x = s x"
proof -
  have "x \<notin> set (concat (map event_writes es)) \<Longrightarrow> fold apply_event es s x = s x" for es
  proof (induction es arbitrary: s)
    case Nil
    show ?case by simp
  next
    case (Cons e es)
    then show ?case by (cases e) auto
  qed
  then show "x \<notin> written b xs \<Longrightarrow> exec b xs s x = s x"
    by (simp add: written_def exec_def)
qed

subsection \<open>The events of the member functions\<close>

lemma events_clear_images:
  "events b (snd (clear_images r c)) =
     (if m_first_frame r then
        [Cleared PrevImage zero_color,
         Cleared (CurrentOutputImage (slot (\<not> ping_pong c))) zero_color,
         Cleared (CurrentMomentsImage (slot (\<not> ping_pong c))) zero_color]
      else [])"
  by (simp add: clear_images_def)

lemma bind_all_clear_images: "bind_all b (snd (clear_images r c)) = b"
  by (simp add: clear_images_def)

lemma events_ray_trace: "events b (ray_trace r c ddgi) = [Pass (ray_trace_pass r c)]"
  by (simp add: ray_trace_def ray_trace_pass_def push_for_def)

lemma pushed_ray_trace:
  "pushed (bind_all b (ray_trace r c ddgi)) = Some (RayTracePipeline, RayTracePC (ray_trace_push_constants r c))"
  by (simp add: ray_trace_def)

lemma events_reset_args:
  "push_for b (Some ResetArgsPipeline) = None \<Longrightarrow> events b (reset_args r) = [Pass reset_args_pass]"
  by (simp add: reset_args_def reset_args_pass_def push_for_def)

lemma pushed_reset_args: "pushed (bind_all b (reset_args r)) = pushed b"
  by (simp add: reset_args_def)

lemma events_temporal_accumulation:
  "events b (temporal_accumulation r c) = [Pass (temporal_accumulation_pass r c)]"
  by (simp add: temporal_accumulation_def temporal_accumulation_pass_def push_for_def)

lemma pushed_temporal_accumulation:
  "pushed (bind_all b (temporal_accumulation r c))
     = Some (TemporalAccumulationPipeline, TemporalAccumulationPC (temporal_accumulation_push_constants r c))"
  by (simp add: temporal_accumulation_def)

lemma events_upsample: "events b (upsample r) = [Pass (upsample_pass r)]"
  by (simp add: upsample_def upsample_pass_def push_for_def)

lemma events_iteration:
  "no_copy_push b \<Longrightarrow> events b (a_trous_iteration_cmds r c i pp) = iteration_events r c i pp"
  by (simp add: a_trous_iteration_cmds_def a_trous_barrier_def copy_tiles_cmds_def
      a_trous_dispatch_cmds_def feedback_cmds_def iteration_events_def copy_tiles_pass_def
      a_trous_pass_def push_for_def no_copy_push_def)

lemma no_copy_push_iteration:
  "no_copy_push (bind_all b (a_trous_iteration_cmds r c i pp))"
  by (simp add: a_trous_iteration_cmds_def a_trous_barrier_def copy_tiles_cmds_def
      a_trous_dispatch_cmds_def feedback_cmds_def push_for_def no_copy_push_def)

lemma events_iterations:
  "no_copy_push b \<Longrightarrow>
   events b (concat (map (\<lambda>j. a_trous_iteration_cmds r c (int j) (odd j)) [0..<k]))
     = concat (map (\<lambda>j. iteration_events r c (int j) (odd j)) [0..<k])
   \<and> no_copy_push (bind_all b (concat (map (\<lambda>j. a_trous_iteration_cmds r c (int j) (odd j)) [0..<k])))"
proof (induction k)
  case 0
  then show ?case by simp
next
  case (Suc k)
  then show ?case
    by (simp add: events_append bind_all_append events_iteration no_copy_push_iteration)
qed

subsection \<open>The commands and events of \<open>render\<close>\<close>

lemma not_first_frame_update: "\<not> m_first_frame r \<Longrightarrow> r\<lparr>m_first_frame := False\<rparr> = r"
  by simp

lemma fst_clear_images: "fst (clear_images r c) = r\<lparr>m_first_frame := False\<rparr>"
  by (simp add: clear_images_def)

lemma a_trous_loop_closed:
  "a_trous_loop r c 0 n a_trous_init = loop_state r c (nat n)"
proof (cases "0 \<le> n")
  case True
  then show ?thesis using a_trous_loop_state [of r c "nat n"] by simp
next
  case False
  then show ?thesis by (simp add: a_trous_loop_stop)
qed

lemma nat_mod_2: "0 \<le> n \<Longrightarrow> nat n mod 2 = nat (n mod 2)"
  by (simp add: nat_mod_distrib)

lemma a_trous_filter_closed:
  "a_trous_filter r c =
     (r\<lparr>m_a_trous := (m_a_trous r)\<lparr>read_idx := final_write_idx (filter_iterations (m_a_trous r))\<rparr>\<rparr>,
      concat (map (\<lambda>j. a_trous_iteration_cmds r c (int j) (odd j)) [0..<nat (filter_iterations (m_a_trous r))])
      @ [a_trous_final_barrier (final_write_idx (filter_iterations (m_a_trous r)))])"
  by (auto simp: a_trous_filter_def Let_def a_trous_loop_closed loop_state_write_idx loop_state_cmds
      final_write_idx_def nat_mod_2)

lemma m_scale_a_trous_filter [simp]: "m_scale (fst (a_trous_filter r c)) = m_scale r"
  by (simp add: a_trous_filter_def Let_def)

lemma render_cmds:
  "snd (render r c ddgi) =
     snd (clear_images r c) @ ray_trace (r\<lparr>m_first_frame := False\<rparr>) c ddgi
     @ (if m_denoise r then
          reset_args (r\<lparr>m_first_frame := False\<rparr>)
          @ temporal_accumulation (r\<lparr>m_first_frame := False\<rparr>) c
          @ snd (a_trous_filter (r\<lparr>m_first_frame := False\<rparr>) c)
          @ (if m_scale r \<noteq> RAY_TRACE_SCALE_FULL_RES
             then upsample (fst (a_trous_filter (r\<lparr>m_first_frame := False\<rparr>) c)) else [])
        else [])"
  by (cases "m_first_frame r")
     (simp_all add: render_def clear_images_def Let_def split_beta not_first_frame_update)

lemma fst_render:
  "fst (render r c ddgi) =
     (if m_denoise r then fst (a_trous_filter (r\<lparr>m_first_frame := False\<rparr>) c)
      else r\<lparr>m_first_frame := False\<rparr>)"
  by (cases "m_first_frame r")
     (simp_all add: render_def clear_images_def Let_def split_beta not_first_frame_update)

lemma events_a_trous_filter:
  "no_copy_push b \<Longrightarrow>
   events b (snd (a_trous_filter r c))
     = concat (map (\<lambda>j. iteration_events r c (int j) (odd j)) [0..<nat (filter_iterations (m_a_trous r))])"
  by (simp add: a_trous_filter_closed events_append events_iterations a_trous_final_barrier_def)

lemma no_copy_push_after_temporal_accumulation:
  "no_copy_push (bind_all b (temporal_accumulation r c))"
  by (simp add: no_copy_push_def push_for_def pushed_temporal_accumulation)

lemma no_reset_push_after_ray_trace:
  "push_for (bind_all b (ray_trace r c ddgi)) (Some ResetArgsPipeline) = None"
  by (simp add: push_for_def pushed_ray_trace)

lemma events_render:
  "events b (snd (render r c ddgi)) =
     events b (snd (clear_images r c))
     @ [Pass (ray_trace_pass (r\<lparr>m_first_frame := False\<rparr>) c)]
     @ (if m_denoise r then
          [Pass reset_args_pass, Pass (temporal_accumulation_pass (r\<lparr>m_first_frame := False\<rparr>) c)]
          @ concat (map (\<lambda>j. iteration_events (r\<lparr>m_first_frame := False\<rparr>) c (int j) (odd j))
                      [0..<nat (filter_iterations (m_a_trous r))])
          @ (if m_scale r \<noteq> RAY_TRACE_SCALE_FULL_RES
             then [Pass (upsample_pass (fst (a_trous_filter (r\<lparr>m_first_frame := False\<rparr>) c)))] else [])
        else [])"
  using events_a_trous_filter [of "bind_all
       (bind_all (bind_all b (ray_trace (r\<lparr>m_first_frame := False\<rparr>) c ddgi))
         (reset_args (r\<lparr>m_first_frame := False\<rparr>)))
       (temporal_accumulation (r\<lparr>m_first_frame := False\<rparr>) c)" "r\<lparr>m_first_frame := False\<rparr>" c]
  by (simp add: render_cmds events_append bind_all_append bind_all_clear_images events_ray_trace
      events_reset_args no_reset_push_after_ray_trace events_temporal_accumulation
      no_copy_push_after_temporal_accumulation events_upsample)

subsection \<open>The passes of \<open>render\<close>\<close>

lemma passes_concat: "passes (concat xss) = concat (map passes xss)"
  by (induction xss) (simp_all add: passes_append)

lemma passes_iteration_events:
  "passes (iteration_events r c i pp) = [copy_tiles_pass c i pp, a_trous_pass r c i pp]"
  by (simp add: iteration_events_def)

lemma passes_clear_images: "passes (events b (snd (clear_images r c))) = []"
  by (simp add: events_clear_images)

lemma passes_render:
  "passes (events b (snd (render r c ddgi))) =
     ray_trace_pass (r\<lparr>m_first_frame := False\<rparr>) c
     # (if m_denoise r then
          [reset_args_pass, temporal_accumulation_pass (r\<lparr>m_first_frame := False\<rparr>) c]
          @ concat (map (\<lambda>j. [copy_tiles_pass c (int j) (odd j),
                               a_trous_pass (r\<lparr>m_first_frame := False\<rparr>) c (int j) (odd j)])
                      [0..<nat (filter_iterations (m_a_trous r))])
          @ (if m_scale r \<noteq> RAY_TRACE_SCALE_FULL_RES
             then [upsample_pass (fst (a_trous_filter (r\<lparr>m_first_frame := False\<rparr>) c))] else [])
        else [])"
  by (simp add: events_render passes_append passes_clear_images passes_concat
      passes_iteration_events comp_def)

lemma concat_map_const: "concat (map (\<lambda>j. xs) [0..<k]) = concat (replicate k xs)"
  by (simp add: map_replicate_const)

lemma map_concat_pairs:
  "map f (concat (map (\<lambda>j. [g j, h j]) [0..<k])) = concat (map (\<lambda>j. [f (g j), f (h j)]) [0..<k])"
  by (induction k) simp_all

lemma filter_concat_pairs:
  "filter P (concat (map (\<lambda>j. [g j, h j]) xs))
     = concat (map (\<lambda>j. (if P (g j) then [g j] else []) @ (if P (h j) then [h j] else [])) xs)"
  by (induction xs) simp_all

lemma concat_map_Nil: "concat (map (\<lambda>j. []) xs) = []"
  by (induction xs) simp_all

lemma concat_map_single: "concat (map (\<lambda>j. [f j]) xs) = map f xs"
  by (induction xs) simp_all

lemma upsample_passes_render:
  "filter (\<lambda>p. pass_pipeline p = Some UpsamplePipeline) (passes (events b (snd (render r c ddgi))))
     = (if m_denoise r \<and> m_scale r \<noteq> RAY_TRACE_SCALE_FULL_RES
        then [upsample_pass (fst (a_trous_filter (r\<lparr>m_first_frame := False\<rparr>) c))] else [])"
  by (simp add: passes_render filter_concat_pairs concat_map_Nil ray_trace_pass_def
      reset_args_pass_def temporal_accumulation_pass_def copy_tiles_pass_def a_trous_pass_def
      upsample_pass_def)

subsection \<open>Step sizes\<close>

lemma sint_step_size:
  assumes "0 \<le> i" "i < 31"
  shows "sint (step_size i) = 2 ^ nat i"
proof -
  have lt: "(2::int) ^ nat i < 2 ^ 31"
    using assms by (intro power_strict_increasing) auto
  have ge: "- (2 ^ 31) \<le> (2::int) ^ nat i"
    by (rule order_trans [of _ 0]) simp_all
  have "step_size i = word_of_int (2 ^ nat i)"
    by (simp add: step_size_def)
  then have "sint (step_size i) = signed_take_bit 31 ((2::int) ^ nat i)"
    by (simp only: sint_sbintrunc') simp
  also have "\<dots> = 2 ^ nat i"
    by (rule signed_take_bit_int_eq_self [OF ge lt])
  finally show ?thesis .
qed

lemma sint_step_size_31: "sint (step_size 31) = - 2147483648"
  by (simp add: step_size_def)

lemma a_trous_passes_render:
  "filter (\<lambda>p. pass_pipeline p = Some ATrousPipeline) (passes (events b (snd (render r c ddgi))))
     = (if m_denoise r
        then map (\<lambda>j. a_trous_pass (r\<lparr>m_first_frame := False\<rparr>) c (int j) (odd j))
               [0..<nat (filter_iterations (m_a_trous r))]
        else [])"
  by (simp add: passes_render filter_concat_pairs concat_map_single ray_trace_pass_def
      reset_args_pass_def temporal_accumulation_pass_def copy_tiles_pass_def a_trous_pass_def
      upsample_pass_def)

lemma step_sizes_render:
  "map step_size_of
     (filter (\<lambda>p. pass_pipeline p = Some ATrousPipeline) (passes (events b (snd (render r c ddgi)))))
     = (if m_denoise r
        then map (\<lambda>j. Some (step_size (int j))) [0..<nat (filter_iterations (m_a_trous r))]
        else [])"
  by (simp add: a_trous_passes_render step_size_of_def a_trous_pass_def a_trous_push_constants_def
      comp_def)

lemma signed_step_sizes_render:
  "map (map_option sint \<circ> step_size_of)
     (filter (\<lambda>p. pass_pipeline p = Some ATrousPipeline) (passes (events b (snd (render r c ddgi)))))
     = (if m_denoise r
        then map (\<lambda>j. Some (sint (step_size (int j)))) [0..<nat (filter_iterations (m_a_trous r))]
        else [])"
proof -
  let ?F = "filter (\<lambda>p. pass_pipeline p = Some ATrousPipeline)
              (passes (events b (snd (render r c ddgi))))"
  have "map (map_option sint \<circ> step_size_of) ?F = map (map_option sint) (map step_size_of ?F)"
    by simp
  also have "\<dots> = (if m_denoise r
        then map (\<lambda>j. Some (sint (step_size (int j)))) [0..<nat (filter_iterations (m_a_trous r))]
        else [])"
    by (simp only: step_sizes_render) (simp add: comp_def)
  finally show ?thesis .
qed

subsection \<open>Slots\<close>

lemma slot_odd: "slot (odd i) = nat (i mod 2)"
proof (cases "even i")
  case True
  then have "i mod 2 = 0" by presburger
  with True show ?thesis by (simp add: slot_def)
next
  case False
  then have "i mod 2 = 1" by presburger
  with False show ?thesis by (simp add: slot_def)
qed

lemma slot_even: "slot (even i) = nat ((i + 1) mod 2)"
proof (cases "even i")
  case True
  then have "(i + 1) mod 2 = 1" by presburger
  with True show ?thesis by (simp add: slot_def)
next
  case False
  then have "(i + 1) mod 2 = 0" by presburger
  with False show ?thesis by (simp add: slot_def)
qed

lemma pass_sets_iteration:
  "map pass_sets (passes (events b (a_trous_iteration_cmds r c i pp)))
     = [[ATrousWriteDS (slot (\<not> pp)), a_trous_input_ds c i (slot pp), IndirectBufferDS],
        [ATrousWriteDS (slot (\<not> pp)), a_trous_input_ds c i (slot pp), GBufferOutputDS,
         IndirectBufferDS]]"
  by (simp add: a_trous_iteration_cmds_def a_trous_barrier_def copy_tiles_cmds_def
      a_trous_dispatch_cmds_def feedback_cmds_def)

lemma final_write_idx_pos: "0 < n \<Longrightarrow> final_write_idx n = nat (n mod 2)"
  by (simp add: final_write_idx_def)

subsection \<open>Clears, and runs of frames\<close>

lemma cleared_append: "cleared (es @ fs) = cleared es @ cleared fs"
  by (induction es rule: cleared.induct) auto

lemma cleared_iterations:
  "cleared (concat (map (\<lambda>j. iteration_events r c (int j) (odd j)) [0..<k])) = []"
  by (induction k) (simp_all add: cleared_append iteration_events_def)

lemma cleared_render:
  "cleared (events b (snd (render r c ddgi)))
     = (if m_first_frame r then
          [(PrevImage, zero_color),
           (CurrentOutputImage (slot (\<not> ping_pong c)), zero_color),
           (CurrentMomentsImage (slot (\<not> ping_pong c)), zero_color)]
        else [])"
  by (simp add: events_render cleared_append cleared_iterations events_clear_images)

lemma first_frame_after_render: "\<not> m_first_frame (fst (render r c ddgi))"
  by (simp add: fst_render a_trous_filter_closed)

lemma first_frame_gui: "m_first_frame (gui u r) = m_first_frame r"
  by (simp add: gui_def)

lemma frame_fst: "fst (fst (frame (r, c) ddgi)) = fst (render r c ddgi)"
  by (simp add: frame_def split_beta)

lemma frame_snd_state: "snd (fst (frame (r, c) ddgi)) = end_frame c"
  by (simp add: frame_def split_beta)

lemma frame_cmds: "snd (frame (r, c) ddgi) = snd (render r c ddgi)"
  by (simp add: frame_def split_beta)

lemma run_steady:
  "\<not> m_first_frame r \<Longrightarrow>
   map (\<lambda>cmds. cleared (events b cmds)) (snd (run (r, c) ddgi us)) = replicate (length us) []
   \<and> \<not> m_first_frame (fst (fst (run (r, c) ddgi us)))"
proof (induction us arbitrary: r c)
  case Nil
  then show ?case by simp
next
  case (Cons u us)
  obtain r1 c1 where f: "fst (frame (gui u r, c) ddgi) = (r1, c1)"
    by (cases "fst (frame (gui u r, c) ddgi)")
  then have "r1 = fst (render (gui u r) c ddgi)"
    using frame_fst [of "gui u r" c ddgi] by simp
  then have nf: "\<not> m_first_frame r1" by (simp add: first_frame_after_render)
  have cl: "cleared (events b (snd (frame (gui u r, c) ddgi))) = []"
    using Cons.prems by (simp add: frame_cmds cleared_render first_frame_gui)
  show ?case
    using Cons.IH [OF nf, of c1] f cl by (simp add: split_beta)
qed

lemma run_first_frame_flag:
  "first_frame (snd (fst (run (r, c) ddgi us))) = (first_frame c \<and> us = [])"
proof (induction us arbitrary: r c)
  case Nil
  show ?case by simp
next
  case (Cons u us)
  obtain r1 c1 where f: "fst (frame (gui u r, c) ddgi) = (r1, c1)"
    by (cases "fst (frame (gui u r, c) ddgi)")
  then have "c1 = end_frame c"
    using frame_snd_state [of "gui u r" c ddgi] by simp
  then have "\<not> first_frame c1" by (simp add: end_frame_def Let_def)
  then show ?case using Cons.IH [of r1 c1] f by (simp add: split_beta)
qed



lemma gi_flags_ray_trace:
  "map (map_option gi_flags \<circ> pass_push)
     (filter (\<lambda>p. pass_pipeline p = Some RayTracePipeline)
        (passes (events b (snd (render r c ddgi)))))
   = [Some [if sample_gi (m_ray_trace r) then 1 else 0,
            if approximate_with_ddgi (m_ray_trace r) then 1 else 0]]"
  by (simp add: passes_render filter_concat_pairs concat_map_Nil ray_trace_pass_def
      reset_args_pass_def temporal_accumulation_pass_def copy_tiles_pass_def a_trous_pass_def
      upsample_pass_def ray_trace_push_constants_def)

subsection \<open>Written resources\<close>

lemma written_events: "written b xs = all_written (events b xs)"
  by (simp add: written_def all_written_def)

lemma all_written_simps [simp]:
  "all_written [] = {}"
  "all_written (e # es) = set (event_writes e) \<union> all_written es"
  "all_written (es @ fs) = all_written es \<union> all_written fs"
  by (simp_all add: all_written_def)

lemma fold_unwritten: "x \<notin> all_written es \<Longrightarrow> fold apply_event es s x = s x"
proof (induction es arbitrary: s)
  case Nil
  show ?case by simp
next
  case (Cons e es)
  then show ?case by (cases e) auto
qed

lemma all_written_iteration:
  "all_written (iteration_events r c i pp)
     = {Img (ATrousImage (slot (\<not> pp))), Buf DenoiseTileCoordsBuffer, Buf DenoiseDispatchArgsBuffer,
        Buf CopyTileCoordsBuffer, Buf CopyDispatchArgsBuffer}
       \<union> (if feedback_iteration (m_a_trous r) = i \<and> blur_as_input (m_temporal_accumulation r)
          then {Img PrevImage} else {})"
  by (auto simp: iteration_events_def copy_tiles_pass_def a_trous_pass_def pass_writes_def
      a_trous_input_ds_def)

lemma all_written_iterations:
  "all_written (concat (map (\<lambda>j. iteration_events r c (int j) (odd j)) [0..<k]))
     \<subseteq> {Img (ATrousImage 0), Img (ATrousImage 1), Img PrevImage,
         Buf DenoiseTileCoordsBuffer, Buf DenoiseDispatchArgsBuffer,
         Buf CopyTileCoordsBuffer, Buf CopyDispatchArgsBuffer}"
proof (induction k)
  case 0
  show ?case by simp
next
  case (Suc k)
  have "all_written (iteration_events r c (int k) (odd k))
     \<subseteq> {Img (ATrousImage 0), Img (ATrousImage 1), Img PrevImage,
         Buf DenoiseTileCoordsBuffer, Buf DenoiseDispatchArgsBuffer,
         Buf CopyTileCoordsBuffer, Buf CopyDispatchArgsBuffer}"
    by (auto simp: all_written_iteration slot_def)
  with Suc show ?case by simp
qed

lemma writes_ray_trace_pass: "set (pass_writes (ray_trace_pass r c)) = {Img RayTraceImage}"
  by (simp add: ray_trace_pass_def pass_writes_def)

lemma writes_reset_args_pass:
  "set (pass_writes reset_args_pass)
     = {Buf DenoiseTileCoordsBuffer, Buf DenoiseDispatchArgsBuffer,
        Buf CopyTileCoordsBuffer, Buf CopyDispatchArgsBuffer}"
  by (auto simp: reset_args_pass_def pass_writes_def)

lemma writes_temporal_accumulation_pass:
  "set (pass_writes (temporal_accumulation_pass r c))
     = {Img (CurrentOutputImage (slot (ping_pong c))), Img (CurrentMomentsImage (slot (ping_pong c))),
        Buf DenoiseTileCoordsBuffer, Buf DenoiseDispatchArgsBuffer,
        Buf CopyTileCoordsBuffer, Buf CopyDispatchArgsBuffer}"
  by (auto simp: temporal_accumulation_pass_def temporal_accumulation_descriptor_sets_def
      pass_writes_def)

lemma writes_upsample_pass: "set (pass_writes (upsample_pass r)) = {Img UpsampleImage}"
  by (simp add: upsample_pass_def pass_writes_def)

lemma all_written_clear_images:
  "all_written (events b (snd (clear_images r c)))
     = (if m_first_frame r
        then {Img PrevImage, Img (CurrentOutputImage (slot (\<not> ping_pong c))),
              Img (CurrentMomentsImage (slot (\<not> ping_pong c)))}
        else {})"
  by (auto simp: events_clear_images)

lemma written_render:
  "written b (snd (render r c ddgi)) =
     all_written (events b (snd (clear_images r c)))
     \<union> {Img RayTraceImage}
     \<union> (if m_denoise r then
          {Img (CurrentOutputImage (slot (ping_pong c))), Img (CurrentMomentsImage (slot (ping_pong c))),
           Buf DenoiseTileCoordsBuffer, Buf DenoiseDispatchArgsBuffer,
           Buf CopyTileCoordsBuffer, Buf CopyDispatchArgsBuffer}
          \<union> all_written (concat (map (\<lambda>j. iteration_events (r\<lparr>m_first_frame := False\<rparr>) c (int j) (odd j))
                      [0..<nat (filter_iterations (m_a_trous r))]))
          \<union> (if m_scale r \<noteq> RAY_TRACE_SCALE_FULL_RES then {Img UpsampleImage} else {})
        else {})"
  unfolding written_events events_render
  by (simp add: writes_ray_trace_pass writes_reset_args_pass writes_temporal_accumulation_pass
      writes_upsample_pass Un_ac insert_commute)

lemma fst_render_fields:
  "m_denoise (fst (render r c ddgi)) = m_denoise r"
  "m_current_output (fst (render r c ddgi)) = m_current_output r"
  "m_scale (fst (render r c ddgi)) = m_scale r"
  "read_idx (m_a_trous (fst (render r c ddgi)))
     = (if m_denoise r then final_write_idx (filter_iterations (m_a_trous r))
        else read_idx (m_a_trous r))"
  by (simp_all add: fst_render a_trous_filter_closed)

lemma upt_last: "0 < k \<Longrightarrow> [0..<k] = [0..<k - 1] @ [k - 1]"
  by (cases k) simp_all

lemma last_slot_written:
  assumes "1 \<le> n"
  shows "Img (ATrousImage (final_write_idx n))
           \<in> all_written (concat (map (\<lambda>j. iteration_events r c (int j) (odd j)) [0..<nat n]))"
proof -
  have k: "0 < nat n" using assms by simp
  have "n = int (nat n - 1) + 1" using assms by simp
  then obtain m where m: "n = int m + 1" ..
  have sm: "nat n = Suc m" using m by simp
  have "odd (nat n - 1) = even n"
    unfolding sm by (simp add: m)
  then have "slot (\<not> odd (nat n - 1)) = slot (odd n)" by simp
  also have "\<dots> = final_write_idx n"
    using assms by (simp add: slot_odd final_write_idx_def)
  finally have "Img (ATrousImage (final_write_idx n))
                  \<in> all_written (iteration_events r c (int (nat n - 1)) (odd (nat n - 1)))"
    by (simp add: all_written_iteration)
  then show ?thesis
    by (subst upt_last [OF k]) simp
qed

lemma upsample_not_written_by_iterations:
  "Img UpsampleImage
     \<notin> all_written (concat (map (\<lambda>j. iteration_events r c (int j) (odd j)) [0..<k]))"
  using all_written_iterations [of r c k] by auto

lemma a_trous_not_written_without_iterations:
  assumes "filter_iterations (m_a_trous r) \<le> 0"
  shows "Img (ATrousImage k) \<notin> written b (snd (render r c ddgi))"
  using assms by (simp add: written_render all_written_clear_images)

subsection \<open>Contents after a frame\<close>

lemma exec_render:
  "exec b (snd (render r c ddgi)) s = fold apply_event (events b (snd (render r c ddgi))) s"
  by (simp add: exec_def)

lemma fold_pass_written:
  "x \<in> set (pass_writes p) \<Longrightarrow> x \<notin> all_written fs \<Longrightarrow>
   fold apply_event (es @ Pass p # fs) s x = Shaded p x (map (fold apply_event es s) (pass_reads p))"
  by (simp add: fold_unwritten)

lemma iterations_keep_temporal_output:
  "Img (CurrentOutputImage k)
     \<notin> all_written (concat (map (\<lambda>j. iteration_events r c (int j) (odd j)) [0..<m]))"
  using all_written_iterations [of r c m] by auto

lemma temporal_output_after_render:
  assumes "m_denoise r"
  shows "\<exists>ins. exec b (snd (render r c ddgi)) s (Img (CurrentOutputImage (slot (ping_pong c))))
           = Shaded (temporal_accumulation_pass (r\<lparr>m_first_frame := False\<rparr>) c)
               (Img (CurrentOutputImage (slot (ping_pong c)))) ins"
proof -
  let ?r1 = "r\<lparr>m_first_frame := False\<rparr>"
  let ?x = "Img (CurrentOutputImage (slot (ping_pong c)))"
  let ?es = "events b (snd (clear_images r c)) @ [Pass (ray_trace_pass ?r1 c), Pass reset_args_pass]"
  let ?fs = "concat (map (\<lambda>j. iteration_events ?r1 c (int j) (odd j))
                      [0..<nat (filter_iterations (m_a_trous r))])
             @ (if m_scale r \<noteq> RAY_TRACE_SCALE_FULL_RES
                then [Pass (upsample_pass (fst (a_trous_filter ?r1 c)))] else [])"
  have ev: "events b (snd (render r c ddgi)) = ?es @ Pass (temporal_accumulation_pass ?r1 c) # ?fs"
    using assms by (simp add: events_render)
  have w: "?x \<in> set (pass_writes (temporal_accumulation_pass ?r1 c))"
    by (simp add: writes_temporal_accumulation_pass)
  have nw: "?x \<notin> all_written ?fs"
    using iterations_keep_temporal_output [of "slot (ping_pong c)" ?r1 c]
    by (simp add: writes_upsample_pass)
  show ?thesis
    unfolding exec_render ev
    by (rule exI, rule fold_pass_written [OF w nw])
qed

lemma upt_split3:
  assumes "k < m"
  shows "[0..<m] = [0..<k] @ k # [Suc k..<m]"
proof -
  have "[0..<k + (m - k)] = [0..<k] @ [k..<k + (m - k)]"
    by (rule upt_add_eq_append) simp
  moreover have "k + (m - k) = m" using assms by simp
  moreover have "[k..<m] = k # [Suc k..<m]" using assms by (rule upt_conv_Cons)
  ultimately show ?thesis by simp
qed

lemma later_iterations_keep_prev:
  assumes "feedback_iteration (m_a_trous r) = int k"
  shows "Img PrevImage
           \<notin> all_written (concat (map (\<lambda>j. iteration_events r c (int j) (odd j)) [Suc k..<m]))"
proof -
  have "Img PrevImage \<notin> all_written (concat (map (\<lambda>j. iteration_events r c (int j) (odd j)) js))"
    if "\<forall>j\<in>set js. k < j" for js
    using that assms by (induction js) (auto simp: all_written_iteration)
  then show ?thesis by simp
qed

lemma feedback_iteration_events:
  assumes "blur_as_input (m_temporal_accumulation r)"
      and "feedback_iteration (m_a_trous r) = int k"
  shows "iteration_events r c (int k) (odd k)
           = [Pass (copy_tiles_pass c (int k) (odd k)), Pass (a_trous_pass r c (int k) (odd k)),
              Copied (ATrousImage (slot (even k))) PrevImage]"
  using assms by (simp add: iteration_events_def)

lemma a_trous_pass_writes_slot:
  "Img (ATrousImage (slot (even k))) \<in> set (pass_writes (a_trous_pass r c (int k) (odd k)))"
  by (simp add: a_trous_pass_def pass_writes_def)

lemma prev_after_iterations:
  assumes "blur_as_input (m_temporal_accumulation r)"
      and "feedback_iteration (m_a_trous r) = int k"
      and "k < m"
      and "Img PrevImage \<notin> all_written fs"
  shows "fold apply_event
           (concat (map (\<lambda>j. iteration_events r c (int j) (odd j)) [0..<m]) @ fs) s
           (Img PrevImage)
         = Shaded (a_trous_pass r c (int k) (odd k)) (Img (ATrousImage (slot (even k))))
             (map (fold apply_event
                     (concat (map (\<lambda>j. iteration_events r c (int j) (odd j)) [0..<k])
                      @ [Pass (copy_tiles_pass c (int k) (odd k))]) s)
                (pass_reads (a_trous_pass r c (int k) (odd k))))"
proof -
  let ?f = "\<lambda>j. iteration_events r c (int j) (odd j)"
  let ?A = "concat (map ?f [0..<k]) @ [Pass (copy_tiles_pass c (int k) (odd k))]"
  let ?B = "concat (map ?f [Suc k..<m]) @ fs"
  let ?ap = "a_trous_pass r c (int k) (odd k)"
  let ?aw = "Img (ATrousImage (slot (even k)))"
  have split: "concat (map ?f [0..<m]) @ fs
               = ?A @ Pass ?ap # Copied (ATrousImage (slot (even k))) PrevImage # ?B"
    by (simp add: upt_split3 [OF assms(3)] feedback_iteration_events [OF assms(1,2)])
  have nB: "Img PrevImage \<notin> all_written ?B"
    using later_iterations_keep_prev [OF assms(2), of c m] assms(4) by simp
  let ?s1 = "fold apply_event ?A s"
  have "fold apply_event (concat (map ?f [0..<m]) @ fs) s (Img PrevImage)
        = fold apply_event ?B (apply_event (Copied (ATrousImage (slot (even k))) PrevImage)
            (apply_event (Pass ?ap) ?s1)) (Img PrevImage)"
    unfolding split by simp
  also have "\<dots> = apply_event (Copied (ATrousImage (slot (even k))) PrevImage)
            (apply_event (Pass ?ap) ?s1) (Img PrevImage)"
    by (rule fold_unwritten [OF nB])
  also have "\<dots> = Shaded ?ap ?aw (map ?s1 (pass_reads ?ap))"
    using a_trous_pass_writes_slot [of k r c] by simp
  finally show ?thesis .
qed

lemma last_slot_after_iterations:
  assumes "blur_as_input (m_temporal_accumulation r)"
      and "feedback_iteration (m_a_trous r) = int k"
      and "m = Suc k"
      and "Img (ATrousImage (slot (even k))) \<notin> all_written fs"
  shows "fold apply_event
           (concat (map (\<lambda>j. iteration_events r c (int j) (odd j)) [0..<m]) @ fs) s
           (Img (ATrousImage (slot (even k))))
         = Shaded (a_trous_pass r c (int k) (odd k)) (Img (ATrousImage (slot (even k))))
             (map (fold apply_event
                     (concat (map (\<lambda>j. iteration_events r c (int j) (odd j)) [0..<k])
                      @ [Pass (copy_tiles_pass c (int k) (odd k))]) s)
                (pass_reads (a_trous_pass r c (int k) (odd k))))"
proof -
  let ?f = "\<lambda>j. iteration_events r c (int j) (odd j)"
  let ?A = "concat (map ?f [0..<k]) @ [Pass (copy_tiles_pass c (int k) (odd k))]"
  let ?ap = "a_trous_pass r c (int k) (odd k)"
  let ?aw = "Img (ATrousImage (slot (even k)))"
  have split: "concat (map ?f [0..<m]) @ fs
               = ?A @ Pass ?ap # Copied (ATrousImage (slot (even k))) PrevImage # fs"
    by (simp add: assms(3) feedback_iteration_events [OF assms(1,2)])
  let ?s1 = "fold apply_event ?A s"
  have "fold apply_event (concat (map ?f [0..<m]) @ fs) s ?aw
        = fold apply_event fs (apply_event (Copied (ATrousImage (slot (even k))) PrevImage)
            (apply_event (Pass ?ap) ?s1)) ?aw"
    unfolding split by simp
  also have "\<dots> = apply_event (Copied (ATrousImage (slot (even k))) PrevImage)
            (apply_event (Pass ?ap) ?s1) ?aw"
    by (rule fold_unwritten [OF assms(4)])
  also have "\<dots> = Shaded ?ap ?aw (map ?s1 (pass_reads ?ap))"
    using a_trous_pass_writes_slot [of k r c] by simp
  finally show ?thesis .
qed

lemma events_render_split:
  assumes "m_denoise r"
  shows "events b (snd (render r c ddgi))
         = (events b (snd (clear_images r c))
            @ [Pass (ray_trace_pass (r\<lparr>m_first_frame := False\<rparr>) c), Pass reset_args_pass,
               Pass (temporal_accumulation_pass (r\<lparr>m_first_frame := False\<rparr>) c)])
           @ (concat (map (\<lambda>j. iteration_events (r\<lparr>m_first_frame := False\<rparr>) c (int j) (odd j))
                        [0..<nat (filter_iterations (m_a_trous r))])
              @ (if m_scale r \<noteq> RAY_TRACE_SCALE_FULL_RES
                 then [Pass (upsample_pass (fst (a_trous_filter (r\<lparr>m_first_frame := False\<rparr>) c)))]
                 else []))"
  using assms by (simp add: events_render)

lemma distinct_pipelines:
  "Shaded (a_trous_pass r c i pp) x ins \<noteq> Shaded (temporal_accumulation_pass r' c') y ins'"
  by (simp add: a_trous_pass_def temporal_accumulation_pass_def)

lemma exec_feedback_iteration:
  assumes "blur_as_input (m_temporal_accumulation r)"
      and "feedback_iteration (m_a_trous r) = i"
  shows "exec b (a_trous_iteration_cmds r c i pp) s (Img PrevImage)
           = exec b (a_trous_iteration_cmds r c i pp) s (Img (ATrousImage (slot (\<not> pp))))
         \<and> (\<exists>p ins. exec b (a_trous_iteration_cmds r c i pp) s (Img PrevImage)
                       = Shaded p (Img (ATrousImage (slot (\<not> pp)))) ins
                    \<and> pass_pipeline p = Some ATrousPipeline
                    \<and> pass_push p = Some (ATrousFilterPC (a_trous_push_constants r i)))"
  using assms
  by (simp add: exec_def a_trous_iteration_cmds_def a_trous_barrier_def copy_tiles_cmds_def
      a_trous_dispatch_cmds_def feedback_cmds_def push_for_def pass_writes_def)

lemma feedback_iteration_cmds:
  assumes "blur_as_input (m_temporal_accumulation r)"
      and "feedback_iteration (m_a_trous r) = i"
  shows "\<exists>pre. a_trous_iteration_cmds r c i pp
           = pre @ [DispatchIndirect DenoiseDispatchArgsBuffer,
                    SetImageLayout (ATrousImage (slot (\<not> pp))) LAYOUT_GENERAL LAYOUT_TRANSFER_SRC_OPTIMAL,
                    SetImageLayout PrevImage LAYOUT_SHADER_READ_ONLY_OPTIMAL LAYOUT_TRANSFER_DST_OPTIMAL,
                    CopyImage (ATrousImage (slot (\<not> pp))) LAYOUT_TRANSFER_SRC_OPTIMAL
                      PrevImage LAYOUT_TRANSFER_DST_OPTIMAL (m_width r) (m_height r) 1,
                    SetImageLayout (ATrousImage (slot (\<not> pp))) LAYOUT_TRANSFER_SRC_OPTIMAL LAYOUT_GENERAL,
                    SetImageLayout PrevImage LAYOUT_TRANSFER_DST_OPTIMAL LAYOUT_SHADER_READ_ONLY_OPTIMAL]"
proof -
  let ?pre = "a_trous_barrier i (slot pp) (slot (\<not> pp)) @ copy_tiles_cmds c i (slot pp) (slot (\<not> pp))
              @ butlast (a_trous_dispatch_cmds r c i (slot pp) (slot (\<not> pp)))"
  show ?thesis
    using assms
    by (intro exI [where x = ?pre])
       (simp add: a_trous_iteration_cmds_def a_trous_dispatch_cmds_def feedback_cmds_def)
qed

lemma frame_feedback:
  assumes "m_denoise r"
      and "blur_as_input (m_temporal_accumulation r)"
      and "feedback_iteration (m_a_trous r) = int k"
      and "int k < filter_iterations (m_a_trous r)"
  shows "\<exists>ins. exec b (snd (render r c ddgi)) s (Img PrevImage)
                 = Shaded (a_trous_pass (r\<lparr>m_first_frame := False\<rparr>) c (int k) (odd k))
                     (Img (ATrousImage (slot (even k)))) ins
               \<and> (filter_iterations (m_a_trous r) = int k + 1 \<longrightarrow>
                    exec b (snd (render r c ddgi)) s (Img (ATrousImage (slot (even k))))
                    = Shaded (a_trous_pass (r\<lparr>m_first_frame := False\<rparr>) c (int k) (odd k))
                        (Img (ATrousImage (slot (even k)))) ins)"
proof -
  let ?r1 = "r\<lparr>m_first_frame := False\<rparr>"
  let ?m = "nat (filter_iterations (m_a_trous r))"
  let ?E0 = "events b (snd (clear_images r c))
            @ [Pass (ray_trace_pass ?r1 c), Pass reset_args_pass,
               Pass (temporal_accumulation_pass ?r1 c)]"
  let ?ups = "if m_scale r \<noteq> RAY_TRACE_SCALE_FULL_RES
              then [Pass (upsample_pass (fst (a_trous_filter ?r1 c)))] else []"
  let ?f = "\<lambda>j. iteration_events ?r1 c (int j) (odd j)"
  let ?s0 = "fold apply_event ?E0 s"
  let ?ins = "map (fold apply_event
                     (concat (map ?f [0..<k]) @ [Pass (copy_tiles_pass c (int k) (odd k))]) ?s0)
                (pass_reads (a_trous_pass ?r1 c (int k) (odd k)))"
  have ex: "exec b (snd (render r c ddgi)) s = fold apply_event (concat (map ?f [0..<?m]) @ ?ups) ?s0"
    unfolding exec_render events_render_split [OF assms(1)] by (simp only: fold_append comp_def)
  have bl: "blur_as_input (m_temporal_accumulation ?r1)" using assms(2) by simp
  have fb: "feedback_iteration (m_a_trous ?r1) = int k" using assms(3) by simp
  have km: "k < ?m" using assms(4) by simp
  have nup: "Img PrevImage \<notin> all_written ?ups" by (simp add: writes_upsample_pass)
  have 1: "exec b (snd (render r c ddgi)) s (Img PrevImage)
           = Shaded (a_trous_pass ?r1 c (int k) (odd k)) (Img (ATrousImage (slot (even k)))) ?ins"
    unfolding ex by (rule prev_after_iterations [OF bl fb km nup])
  have 2: "exec b (snd (render r c ddgi)) s (Img (ATrousImage (slot (even k))))
           = Shaded (a_trous_pass ?r1 c (int k) (odd k)) (Img (ATrousImage (slot (even k)))) ?ins"
    if last: "filter_iterations (m_a_trous r) = int k + 1"
  proof -
    have m: "?m = Suc k" using last by simp
    have nua: "Img (ATrousImage (slot (even k))) \<notin> all_written ?ups"
      by (simp add: writes_upsample_pass)
    show ?thesis
      unfolding ex by (rule last_slot_after_iterations [OF bl fb m nua])
  qed
  from 1 2 show ?thesis by blast
qed

lemma slot_odd_nat: "slot (odd (j::nat)) = j mod 2"
  by (cases "even j") (auto simp: slot_def odd_iff_mod_2_eq_one)

lemma slot_even_nat: "slot (even (j::nat)) = (j + 1) mod 2"
  by (cases "even j") (auto simp: slot_def odd_iff_mod_2_eq_one mod_Suc)

lemma pipeline_sets_iteration:
  "map (\<lambda>p. (pass_pipeline p, pass_sets p)) (passes (events b (a_trous_iteration_cmds r c i pp)))
     = [(Some CopyTilesPipeline,
         [ATrousWriteDS (slot (\<not> pp)), a_trous_input_ds c i (slot pp), IndirectBufferDS]),
        (Some ATrousPipeline,
         [ATrousWriteDS (slot (\<not> pp)), a_trous_input_ds c i (slot pp), GBufferOutputDS,
          IndirectBufferDS])]"
  by (simp add: a_trous_iteration_cmds_def a_trous_barrier_def copy_tiles_cmds_def
      a_trous_dispatch_cmds_def feedback_cmds_def)

lemma pipeline_sets_iterations:
  "map (\<lambda>p. (pass_pipeline p, pass_sets p))
     (passes (events b (concat (map (\<lambda>j. a_trous_iteration_cmds r c (int j) (odd j)) [0..<k]))))
     = concat (map (\<lambda>j.
         [(Some CopyTilesPipeline,
           [ATrousWriteDS ((j + 1) mod 2),
            (if j = 0 then OutputOnlyReadDS (slot (ping_pong c)) else ATrousReadDS (j mod 2)),
            IndirectBufferDS]),
          (Some ATrousPipeline,
           [ATrousWriteDS ((j + 1) mod 2),
            (if j = 0 then OutputOnlyReadDS (slot (ping_pong c)) else ATrousReadDS (j mod 2)),
            GBufferOutputDS, IndirectBufferDS])]) [0..<k])"
proof (induction k)
  case 0
  show ?case by simp
next
  case (Suc k)
  show ?case
    using Suc.IH
    by (simp add: events_append passes_append pipeline_sets_iteration a_trous_input_ds_def
        slot_odd_nat slot_even_nat)
qed

lemma pipeline_sets_a_trous_filter:
  "map (\<lambda>p. (pass_pipeline p, pass_sets p)) (passes (events b (snd (a_trous_filter r c))))
     = concat (map (\<lambda>j.
         [(Some CopyTilesPipeline,
           [ATrousWriteDS ((j + 1) mod 2),
            (if j = 0 then OutputOnlyReadDS (slot (ping_pong c)) else ATrousReadDS (j mod 2)),
            IndirectBufferDS]),
          (Some ATrousPipeline,
           [ATrousWriteDS ((j + 1) mod 2),
            (if j = 0 then OutputOnlyReadDS (slot (ping_pong c)) else ATrousReadDS (j mod 2)),
            GBufferOutputDS, IndirectBufferDS])]) [0..<nat (filter_iterations (m_a_trous r))])"
  using pipeline_sets_iterations [of b r c "nat (filter_iterations (m_a_trous r))"]
  by (simp add: a_trous_filter_closed events_append passes_append a_trous_final_barrier_def)

lemma final_write_idx_nat: "1 \<le> n \<Longrightarrow> final_write_idx n = nat n mod 2"
  by (simp add: final_write_idx_def nat_mod_distrib)

lemma pipeline_sets_render:
  assumes "m_denoise r"
  shows "map (\<lambda>p. (pass_pipeline p, pass_sets p)) (passes (events b (snd (render r c ddgi))))
     = [(Some RayTracePipeline,
         [SceneDS, RayTraceWriteDS, PerFrameDS, GBufferOutputDS, SkyboxDS, BlueNoiseDS, DDGIReadDS]),
        (Some ResetArgsPipeline, [IndirectBufferDS]),
        (Some TemporalAccumulationPipeline, temporal_accumulation_descriptor_sets r c)]
       @ concat (map (\<lambda>j.
         [(Some CopyTilesPipeline,
           [ATrousWriteDS ((j + 1) mod 2),
            (if j = 0 then OutputOnlyReadDS (slot (ping_pong c)) else ATrousReadDS (j mod 2)),
            IndirectBufferDS]),
          (Some ATrousPipeline,
           [ATrousWriteDS ((j + 1) mod 2),
            (if j = 0 then OutputOnlyReadDS (slot (ping_pong c)) else ATrousReadDS (j mod 2)),
            GBufferOutputDS, IndirectBufferDS])]) [0..<nat (filter_iterations (m_a_trous r))])
       @ (if m_scale r \<noteq> RAY_TRACE_SCALE_FULL_RES
          then [(Some UpsamplePipeline,
                 [UpsampleWriteDS,
                  ATrousReadDS (final_write_idx (filter_iterations (m_a_trous r))),
                  GBufferOutputDS])]
          else [])"
  using assms
  by (simp add: passes_render map_concat_pairs ray_trace_pass_def reset_args_pass_def
      temporal_accumulation_pass_def copy_tiles_pass_def a_trous_pass_def upsample_pass_def
      a_trous_filter_closed a_trous_input_ds_def slot_odd_nat slot_even_nat
      temporal_accumulation_descriptor_sets_def)

lemma last_concat_pairs:
  "0 < k \<Longrightarrow> last (concat (map (\<lambda>j. [g j, h j]) [0..<k])) = h (k - 1)"
  by (cases k) simp_all

lemma run_constructed:
  "map (\<lambda>cmds. cleared (events b cmds))
     (snd (run (construct defaults backend scale, c) ddgi us))
     = (case us of
          [] \<Rightarrow> []
        | u # us' \<Rightarrow>
            [(PrevImage, zero_color),
             (CurrentOutputImage (slot (\<not> ping_pong c)), zero_color),
             (CurrentMomentsImage (slot (\<not> ping_pong c)), zero_color)]
            # replicate (length us') [])
   \<and> m_first_frame (fst (fst (run (construct defaults backend scale, c) ddgi us))) = (us = [])"
proof -
  let ?r0 = "construct defaults backend scale"
  have ff: "m_first_frame ?r0" by (simp add: construct_def initial_first_frame_def)
  show ?thesis
  proof (cases us)
    case Nil
    then show ?thesis using ff by simp
  next
    case (Cons u us')
    obtain r1 c1 where f: "fst (frame (gui u ?r0, c) ddgi) = (r1, c1)"
      by (cases "fst (frame (gui u ?r0, c) ddgi)")
    then have "r1 = fst (render (gui u ?r0) c ddgi)"
      using frame_fst [of "gui u ?r0" c ddgi] by simp
    then have nf: "\<not> m_first_frame r1" by (simp add: first_frame_after_render)
    have cl: "cleared (events b (snd (frame (gui u ?r0, c) ddgi)))
              = [(PrevImage, zero_color),
                 (CurrentOutputImage (slot (\<not> ping_pong c)), zero_color),
                 (CurrentMomentsImage (slot (\<not> ping_pong c)), zero_color)]"
      using ff by (simp add: frame_cmds cleared_render first_frame_gui)
    show ?thesis
      using run_steady [OF nf, of b c1 ddgi us'] f cl Cons by (simp add: split_beta)
  qed
qed

lemma render_after_clear:
  "snd (render r c ddgi)
     = snd (clear_images r c) @ snd (render (r\<lparr>m_first_frame := False\<rparr>) c ddgi)
   \<and> fst (render r c ddgi) = fst (render (r\<lparr>m_first_frame := False\<rparr>) c ddgi)"
  by (simp add: render_cmds fst_render clear_images_def)

lemma kernel_taps_zero: "kernel_taps 0 step p = [p]"
  by (simp add: kernel_taps_def)

lemma filtered_zero: "filtered sh inp 0 step p = inp p"
  by (simp add: filtered_def kernel_taps_zero Let_def)

lemma a_trous_after_copy_tiles:
  "a_trous_shader sh 0 step inp (copy_tiles_shader sh inp out) = inp"
  by (rule ext) (simp add: a_trous_shader_def copy_tiles_shader_def filtered_zero)

lemma run_events_append:
  "run_events sh (es @ fs) P
     = (case run_events sh es P of None \<Rightarrow> None | Some P' \<Rightarrow> run_events sh fs P')"
  by (induction es arbitrary: P) (simp_all split: option.splits)

lemma slot_neq: "slot (\<not> pp) \<noteq> slot pp" "slot pp \<noteq> slot (\<not> pp)"
  by (simp_all add: slot_def)

lemma run_iteration:
  assumes "radius (m_a_trous r) = 0"
  shows "run_events sh (events b (a_trous_iteration_cmds r c i pp)) P
           = Some (after_iteration r c i pp P)"
  using assms
  by (simp add: a_trous_iteration_cmds_def a_trous_barrier_def copy_tiles_cmds_def
      a_trous_dispatch_cmds_def feedback_cmds_def run_pass_def ds_image_def push_for_def
      a_trous_input_ds_def a_trous_push_constants_def after_iteration_def iteration_input_def
      a_trous_after_copy_tiles slot_neq Let_def)

lemma run_iterations:
  assumes "radius (m_a_trous r) = 0"
  shows "run_events sh
           (events b (concat (map (\<lambda>j. a_trous_iteration_cmds r c (int j) (odd j)) [0..<k]))) P
         = Some (fold (\<lambda>j. after_iteration r c (int j) (odd j)) [0..<k] P)"
proof (induction k)
  case 0
  show ?case by simp
next
  case (Suc k)
  show ?case
    using Suc.IH by (simp add: events_append run_events_append run_iteration [OF assms])
qed

lemma after_iteration_current:
  "after_iteration r c i pp P (CurrentOutputImage n) = P (CurrentOutputImage n)"
  by (simp add: after_iteration_def Let_def)

lemma after_iteration_written:
  "after_iteration r c i pp P (ATrousImage (slot (\<not> pp))) = P (iteration_input c i pp)"
  by (simp add: after_iteration_def Let_def)

lemma after_iterations:
  "fold (\<lambda>j. after_iteration r c (int j) (odd j)) [0..<k] P (CurrentOutputImage n)
     = P (CurrentOutputImage n)
   \<and> (0 < k \<longrightarrow>
        fold (\<lambda>j. after_iteration r c (int j) (odd j)) [0..<k] P (ATrousImage (k mod 2))
          = P (CurrentOutputImage (slot (ping_pong c))))"
proof (induction k)
  case 0
  show ?case by simp
next
  case (Suc k)
  let ?Q = "fold (\<lambda>j. after_iteration r c (int j) (odd j)) [0..<k] P"
  have f: "fold (\<lambda>j. after_iteration r c (int j) (odd j)) [0..<Suc k] P
           = after_iteration r c (int k) (odd k) ?Q"
    by simp
  have w: "Suc k mod 2 = slot (\<not> odd k)"
    using slot_even_nat [of k] by simp
  have 1: "after_iteration r c (int k) (odd k) ?Q (CurrentOutputImage n) = P (CurrentOutputImage n)"
    using Suc.IH by (simp add: after_iteration_current)
  have 2: "after_iteration r c (int k) (odd k) ?Q (ATrousImage (Suc k mod 2))
           = P (CurrentOutputImage (slot (ping_pong c)))"
  proof (cases "k = 0")
    case True
    then show ?thesis
      unfolding w after_iteration_written by (simp add: iteration_input_def)
  next
    case False
    then have "?Q (ATrousImage (k mod 2)) = P (CurrentOutputImage (slot (ping_pong c)))"
      using Suc.IH by simp
    with False show ?thesis
      unfolding w after_iteration_written by (simp add: iteration_input_def slot_odd_nat)
  qed
  show ?case
    unfolding f using 1 2 by simp
qed

lemma run_a_trous_filter:
  assumes "radius (m_a_trous r) = 0"
  shows "run_events sh (events b (snd (a_trous_filter r c))) P
         = Some (fold (\<lambda>j. after_iteration r c (int j) (odd j))
                   [0..<nat (filter_iterations (m_a_trous r))] P)"
  using run_iterations [OF assms, of sh b c "nat (filter_iterations (m_a_trous r))" P]
  by (simp add: a_trous_filter_closed events_append run_events_append a_trous_final_barrier_def)

lemma kernel_taps_one:
  "kernel_taps 1 1 (0, 0)
     = [(- 1, - 1), (0, - 1), (1, - 1), (- 1, 0), (0, 0), (1, 0), (- 1, 1), (0, 1), (1, 1)]"
  by (simp add: kernel_taps_def upto.simps)

lemma filtered_radius_one:
  "filtered example_shading (\<lambda>p. if p = (0, 0) then 9 else 0) 1 1 (0, 0) = 1"
  by (simp add: filtered_def kernel_taps_one tap_weight_def example_shading_def Let_def)
section \<open>The claims\<close>

subsection \<open>C1: the ping-pong slots of the filter iterations\<close>

text \<open>
  Claim C1, as amended. Let the filter run at least once. The command list that
  \<open>a_trous_filter\<close> records holds exactly two passes for every iteration
  \<open>i = 0, \<dots>, filter_iterations - 1\<close>, in order: the copy-tiles pass and the filter pass
  of iteration \<open>i\<close>. Both write A-Trous slot \<open>(i + 1) mod 2\<close>. Those of iteration 0 read
  the temporal-accumulation output of the current frame parity, and those of every later
  iteration read A-Trous slot \<open>i mod 2\<close>. The last recorded pass writes the slot that
  \<open>m_a_trous.read_idx\<close> names after the call, which is \<open>filter_iterations mod 2\<close>. With
  denoising on, the command list of \<open>render\<close> holds the same passes after the ray trace,
  the argument reset and the temporal accumulation; the upsample pass that follows them at
  reduced resolution reads A-Trous slot \<open>filter_iterations mod 2\<close>, and so does the
  A-Trous output selection after \<open>render\<close>.
\<close>

theorem a_trous_ping_pong:
  assumes "1 \<le> filter_iterations (m_a_trous r)"
  shows "map (\<lambda>p. (pass_pipeline p, pass_sets p)) (passes (events b (snd (a_trous_filter r c))))
           = concat (map (\<lambda>i.
               [(Some CopyTilesPipeline,
                 [ATrousWriteDS ((i + 1) mod 2),
                  (if i = 0 then OutputOnlyReadDS (slot (ping_pong c)) else ATrousReadDS (i mod 2)),
                  IndirectBufferDS]),
                (Some ATrousPipeline,
                 [ATrousWriteDS ((i + 1) mod 2),
                  (if i = 0 then OutputOnlyReadDS (slot (ping_pong c)) else ATrousReadDS (i mod 2)),
                  GBufferOutputDS, IndirectBufferDS])])
               [0..<nat (filter_iterations (m_a_trous r))])
         \<and> pass_sets (last (passes (events b (snd (a_trous_filter r c))))) ! 0
             = ATrousWriteDS (read_idx (m_a_trous (fst (a_trous_filter r c))))
         \<and> read_idx (m_a_trous (fst (a_trous_filter r c)))
             = nat (filter_iterations (m_a_trous r)) mod 2
         \<and> (m_denoise r \<longrightarrow>
              map (\<lambda>p. (pass_pipeline p, pass_sets p)) (passes (events b (snd (render r c ddgi))))
                = [(Some RayTracePipeline,
                    [SceneDS, RayTraceWriteDS, PerFrameDS, GBufferOutputDS, SkyboxDS, BlueNoiseDS,
                     DDGIReadDS]),
                   (Some ResetArgsPipeline, [IndirectBufferDS]),
                   (Some TemporalAccumulationPipeline, temporal_accumulation_descriptor_sets r c)]
                  @ concat (map (\<lambda>i.
                      [(Some CopyTilesPipeline,
                        [ATrousWriteDS ((i + 1) mod 2),
                         (if i = 0 then OutputOnlyReadDS (slot (ping_pong c))
                          else ATrousReadDS (i mod 2)),
                         IndirectBufferDS]),
                       (Some ATrousPipeline,
                        [ATrousWriteDS ((i + 1) mod 2),
                         (if i = 0 then OutputOnlyReadDS (slot (ping_pong c))
                          else ATrousReadDS (i mod 2)),
                         GBufferOutputDS, IndirectBufferDS])])
                      [0..<nat (filter_iterations (m_a_trous r))])
                  @ (if m_scale r \<noteq> RAY_TRACE_SCALE_FULL_RES
                     then [(Some UpsamplePipeline,
                            [UpsampleWriteDS,
                             ATrousReadDS (nat (filter_iterations (m_a_trous r)) mod 2),
                             GBufferOutputDS])]
                     else [])
              \<and> read_idx (m_a_trous (fst (render r c ddgi)))
                  = nat (filter_iterations (m_a_trous r)) mod 2
              \<and> (m_current_output r = OUTPUT_ATROUS \<longrightarrow>
                   output_ds (fst (render r c ddgi)) c
                     = ATrousReadDS (nat (filter_iterations (m_a_trous r)) mod 2)))"
proof -
  let ?n = "filter_iterations (m_a_trous r)"
  let ?ps = "passes (events b (snd (a_trous_filter r c)))"
  let ?f = "\<lambda>p. (pass_pipeline p, pass_sets p)"
  have f: "final_write_idx ?n = nat ?n mod 2"
    using assms by (rule final_write_idx_nat)
  have k: "[0..<nat ?n] = [0..<nat ?n - 1] @ [nat ?n - 1]"
    using assms by (intro upt_last) simp
  have s: "Suc (nat ?n - Suc 0) = nat ?n"
    using assms by simp
  have 1: "map ?f ?ps
           = concat (map (\<lambda>i.
               [(Some CopyTilesPipeline,
                 [ATrousWriteDS ((i + 1) mod 2),
                  (if i = 0 then OutputOnlyReadDS (slot (ping_pong c)) else ATrousReadDS (i mod 2)),
                  IndirectBufferDS]),
                (Some ATrousPipeline,
                 [ATrousWriteDS ((i + 1) mod 2),
                  (if i = 0 then OutputOnlyReadDS (slot (ping_pong c)) else ATrousReadDS (i mod 2)),
                  GBufferOutputDS, IndirectBufferDS])])
               [0..<nat ?n])"
    by (rule pipeline_sets_a_trous_filter)
  have 3: "read_idx (m_a_trous (fst (a_trous_filter r c))) = nat ?n mod 2"
    by (simp add: a_trous_filter_closed f)
  have ne: "map ?f ?ps \<noteq> []"
    unfolding 1 by (subst k) simp
  have pos: "0 < nat ?n"
    using assms by simp
  have "snd (last (map ?f ?ps)) ! 0 = ATrousWriteDS (nat ?n mod 2)"
    unfolding 1 last_concat_pairs [OF pos] using s by simp
  moreover have "last (map ?f ?ps) = ?f (last ?ps)"
    using ne by (simp add: last_map)
  ultimately have 2: "pass_sets (last ?ps) ! 0
             = ATrousWriteDS (read_idx (m_a_trous (fst (a_trous_filter r c))))"
    by (simp add: 3)
  have 4: "map ?f (passes (events b (snd (render r c ddgi))))
                = [(Some RayTracePipeline,
                    [SceneDS, RayTraceWriteDS, PerFrameDS, GBufferOutputDS, SkyboxDS, BlueNoiseDS,
                     DDGIReadDS]),
                   (Some ResetArgsPipeline, [IndirectBufferDS]),
                   (Some TemporalAccumulationPipeline, temporal_accumulation_descriptor_sets r c)]
                  @ concat (map (\<lambda>i.
                      [(Some CopyTilesPipeline,
                        [ATrousWriteDS ((i + 1) mod 2),
                         (if i = 0 then OutputOnlyReadDS (slot (ping_pong c))
                          else ATrousReadDS (i mod 2)),
                         IndirectBufferDS]),
                       (Some ATrousPipeline,
                        [ATrousWriteDS ((i + 1) mod 2),
                         (if i = 0 then OutputOnlyReadDS (slot (ping_pong c))
                          else ATrousReadDS (i mod 2)),
                         GBufferOutputDS, IndirectBufferDS])])
                      [0..<nat ?n])
                  @ (if m_scale r \<noteq> RAY_TRACE_SCALE_FULL_RES
                     then [(Some UpsamplePipeline,
                            [UpsampleWriteDS, ATrousReadDS (nat ?n mod 2), GBufferOutputDS])]
                     else [])"
    if "m_denoise r"
    using pipeline_sets_render [OF that, of b c ddgi] by (simp only: f)
  have 5: "read_idx (m_a_trous (fst (render r c ddgi))) = nat ?n mod 2" if "m_denoise r"
    using that by (simp add: fst_render_fields f)
  have 6: "output_ds (fst (render r c ddgi)) c = ATrousReadDS (nat ?n mod 2)"
    if "m_denoise r" and "m_current_output r = OUTPUT_ATROUS"
    using that by (simp add: output_ds_def fst_render_fields f)
  from 1 2 3 4 5 6 show ?thesis by blast
qed

theorem a_trous_ping_pong_witness:
  "1 \<le> filter_iterations (m_a_trous (two_iterations\<lparr>m_current_output := OUTPUT_ATROUS\<rparr>))
   \<and> m_denoise (two_iterations\<lparr>m_current_output := OUTPUT_ATROUS\<rparr>)
   \<and> m_current_output (two_iterations\<lparr>m_current_output := OUTPUT_ATROUS\<rparr>) = OUTPUT_ATROUS
   \<and> map (\<lambda>p. (pass_pipeline p, pass_sets p))
       (passes (events no_bindings
          (snd (a_trous_filter (two_iterations\<lparr>m_current_output := OUTPUT_ATROUS\<rparr>)
                  example_common))))
       = [(Some CopyTilesPipeline, [ATrousWriteDS 1, OutputOnlyReadDS 0, IndirectBufferDS]),
          (Some ATrousPipeline,
           [ATrousWriteDS 1, OutputOnlyReadDS 0, GBufferOutputDS, IndirectBufferDS]),
          (Some CopyTilesPipeline, [ATrousWriteDS 0, ATrousReadDS 1, IndirectBufferDS]),
          (Some ATrousPipeline,
           [ATrousWriteDS 0, ATrousReadDS 1, GBufferOutputDS, IndirectBufferDS])]
   \<and> read_idx (m_a_trous
         (fst (a_trous_filter (two_iterations\<lparr>m_current_output := OUTPUT_ATROUS\<rparr>)
                 example_common))) = 0
   \<and> read_idx (m_a_trous
         (fst (render (two_iterations\<lparr>m_current_output := OUTPUT_ATROUS\<rparr>)
                 example_common example_ddgi))) = 0
   \<and> output_ds
         (fst (render (two_iterations\<lparr>m_current_output := OUTPUT_ATROUS\<rparr>)
                 example_common example_ddgi)) example_common
       = ATrousReadDS 0"
proof -
  let ?r = "two_iterations\<lparr>m_current_output := OUTPUT_ATROUS\<rparr>"
  have n: "filter_iterations (m_a_trous two_iterations) = 2"
    by (simp add: two_iterations_def)
  have a: "1 \<le> filter_iterations (m_a_trous ?r)"
    by (simp add: n)
  have d: "m_denoise ?r"
    by (simp add: two_iterations_def example_reflections_def example_defaults_def construct_def)
  have o: "m_current_output ?r = OUTPUT_ATROUS"
    by simp
  have u: "[0..<2] = [0, Suc 0]"
    by (simp add: upt_rec numeral_2_eq_2)
  note t = a_trous_ping_pong [OF a, of no_bindings example_common example_ddgi]
  from t have s: "map (\<lambda>p. (pass_pipeline p, pass_sets p))
       (passes (events no_bindings (snd (a_trous_filter ?r example_common))))
       = concat (map (\<lambda>i.
               [(Some CopyTilesPipeline,
                 [ATrousWriteDS ((i + 1) mod 2),
                  (if i = 0 then OutputOnlyReadDS (slot (ping_pong example_common))
                   else ATrousReadDS (i mod 2)),
                  IndirectBufferDS]),
                (Some ATrousPipeline,
                 [ATrousWriteDS ((i + 1) mod 2),
                  (if i = 0 then OutputOnlyReadDS (slot (ping_pong example_common))
                   else ATrousReadDS (i mod 2)),
                  GBufferOutputDS, IndirectBufferDS])])
               [0..<nat (filter_iterations (m_a_trous ?r))])"
    by (elim conjE)
  from t have r: "read_idx (m_a_trous (fst (a_trous_filter ?r example_common)))
                  = nat (filter_iterations (m_a_trous ?r)) mod 2"
    by (elim conjE)
  from t d have q: "read_idx (m_a_trous (fst (render ?r example_common example_ddgi)))
                  = nat (filter_iterations (m_a_trous ?r)) mod 2"
    by blast
  from t d o have w: "output_ds (fst (render ?r example_common example_ddgi)) example_common
                  = ATrousReadDS (nat (filter_iterations (m_a_trous ?r)) mod 2)"
    by blast
  have c: "slot (ping_pong example_common) = 0"
    by (simp add: slot_def example_common_def)
  have 1: "map (\<lambda>p. (pass_pipeline p, pass_sets p))
       (passes (events no_bindings (snd (a_trous_filter ?r example_common))))
       = [(Some CopyTilesPipeline, [ATrousWriteDS 1, OutputOnlyReadDS 0, IndirectBufferDS]),
          (Some ATrousPipeline,
           [ATrousWriteDS 1, OutputOnlyReadDS 0, GBufferOutputDS, IndirectBufferDS]),
          (Some CopyTilesPipeline, [ATrousWriteDS 0, ATrousReadDS 1, IndirectBufferDS]),
          (Some ATrousPipeline,
           [ATrousWriteDS 0, ATrousReadDS 1, GBufferOutputDS, IndirectBufferDS])]"
    unfolding s by (simp add: n u c)
  have 2: "read_idx (m_a_trous (fst (a_trous_filter ?r example_common))) = 0"
    using r by (simp add: n)
  have 3: "read_idx (m_a_trous (fst (render ?r example_common example_ddgi))) = 0"
    using q by (simp add: n)
  have 4: "output_ds (fst (render ?r example_common example_ddgi)) example_common = ATrousReadDS 0"
    using w by (simp add: n)
  from a d o 1 2 3 4 show ?thesis by blast
qed

text \<open>
  The claim as stated, that iteration \<open>i\<close> reads A-Trous slot \<open>i mod 2\<close>, fails at
  iteration 0: the passes of a filter with one iteration bind the temporal-accumulation
  output as their input, and none of them reads A-Trous slot 0.
\<close>

theorem a_trous_first_iteration_counterexample:
  "map pass_sets (passes (events no_bindings (snd (a_trous_filter one_iteration example_common))))
     = [[ATrousWriteDS 1, OutputOnlyReadDS 0, IndirectBufferDS],
        [ATrousWriteDS 1, OutputOnlyReadDS 0, GBufferOutputDS, IndirectBufferDS]]
   \<and> Img (ATrousImage (nat (0 mod 2)))
       \<notin> set (concat (map pass_reads
             (passes (events no_bindings (snd (a_trous_filter one_iteration example_common))))))"
proof -
  have n: "nat (filter_iterations (m_a_trous one_iteration)) = Suc 0"
    by (simp add: one_iteration_def)
  have e: "passes (events no_bindings (snd (a_trous_filter one_iteration example_common)))
           = [copy_tiles_pass example_common 0 False, a_trous_pass one_iteration example_common 0 False]"
    by (simp add: events_a_trous_filter no_copy_push_def push_for_def no_bindings_def n
        passes_iteration_events)
  show ?thesis
    unfolding e
    by (simp add: copy_tiles_pass_def a_trous_pass_def a_trous_input_ds_def slot_def
        example_common_def pass_reads_def)
qed
subsection \<open>C2: the feedback copy into the temporal history\<close>

text \<open>
  Claim C2. Let \<open>blur_as_input\<close> be set and the feedback iteration be one of the
  iterations of the filter. The commands of that iteration end with the A-Trous dispatch
  followed by the copy of the slot just written, \<open>(i + 1) mod 2\<close>, into the previous image:
  after the iteration the previous image holds what the A-Trous pass of this iteration
  wrote into that slot. After the whole frame (with denoising) the previous image still
  holds the output of that A-Trous pass, which is not the temporal-accumulation output of
  the frame; and when the feedback iteration is the last one, the previous image equals
  the slot that \<open>read_idx\<close> names, the output of the last iteration.
\<close>

theorem feedback_into_history:
  assumes "blur_as_input (m_temporal_accumulation r)"
      and "0 \<le> feedback_iteration (m_a_trous r)"
      and "feedback_iteration (m_a_trous r) < filter_iterations (m_a_trous r)"
  shows "local_ping_pong (a_trous_loop r c 0 (feedback_iteration (m_a_trous r)) a_trous_init)
           = odd (feedback_iteration (m_a_trous r))
         \<and> (\<exists>pre. a_trous_iteration_cmds r c (feedback_iteration (m_a_trous r))
                     (odd (feedback_iteration (m_a_trous r)))
               = pre
                 @ [DispatchIndirect DenoiseDispatchArgsBuffer,
                    SetImageLayout (ATrousImage (nat ((feedback_iteration (m_a_trous r) + 1) mod 2)))
                      LAYOUT_GENERAL LAYOUT_TRANSFER_SRC_OPTIMAL,
                    SetImageLayout PrevImage LAYOUT_SHADER_READ_ONLY_OPTIMAL LAYOUT_TRANSFER_DST_OPTIMAL,
                    CopyImage (ATrousImage (nat ((feedback_iteration (m_a_trous r) + 1) mod 2)))
                      LAYOUT_TRANSFER_SRC_OPTIMAL PrevImage LAYOUT_TRANSFER_DST_OPTIMAL
                      (m_width r) (m_height r) 1,
                    SetImageLayout (ATrousImage (nat ((feedback_iteration (m_a_trous r) + 1) mod 2)))
                      LAYOUT_TRANSFER_SRC_OPTIMAL LAYOUT_GENERAL,
                    SetImageLayout PrevImage LAYOUT_TRANSFER_DST_OPTIMAL LAYOUT_SHADER_READ_ONLY_OPTIMAL])
         \<and> exec b (a_trous_iteration_cmds r c (feedback_iteration (m_a_trous r))
                     (odd (feedback_iteration (m_a_trous r)))) s (Img PrevImage)
             = exec b (a_trous_iteration_cmds r c (feedback_iteration (m_a_trous r))
                     (odd (feedback_iteration (m_a_trous r)))) s
                 (Img (ATrousImage (nat ((feedback_iteration (m_a_trous r) + 1) mod 2))))
         \<and> (\<exists>p ins. exec b (a_trous_iteration_cmds r c (feedback_iteration (m_a_trous r))
                              (odd (feedback_iteration (m_a_trous r)))) s (Img PrevImage)
                       = Shaded p (Img (ATrousImage (nat ((feedback_iteration (m_a_trous r) + 1) mod 2)))) ins
                     \<and> pass_pipeline p = Some ATrousPipeline
                     \<and> pass_push p
                         = Some (ATrousFilterPC (a_trous_push_constants r (feedback_iteration (m_a_trous r)))))
         \<and> (m_denoise r \<longrightarrow>
              (\<exists>p ins. exec b (snd (render r c ddgi)) s (Img PrevImage)
                         = Shaded p (Img (ATrousImage (nat ((feedback_iteration (m_a_trous r) + 1) mod 2)))) ins
                       \<and> pass_pipeline p = Some ATrousPipeline
                       \<and> pass_push p
                           = Some (ATrousFilterPC (a_trous_push_constants (r\<lparr>m_first_frame := False\<rparr>)
                                     (feedback_iteration (m_a_trous r)))))
              \<and> exec b (snd (render r c ddgi)) s (Img PrevImage)
                  \<noteq> exec b (snd (render r c ddgi)) s (Img (CurrentOutputImage (slot (ping_pong c))))
              \<and> (feedback_iteration (m_a_trous r) = filter_iterations (m_a_trous r) - 1 \<longrightarrow>
                   exec b (snd (render r c ddgi)) s (Img PrevImage)
                   = exec b (snd (render r c ddgi)) s
                       (Img (ATrousImage (read_idx (m_a_trous (fst (render r c ddgi))))))))"
proof -
  let ?i = "feedback_iteration (m_a_trous r)"
  let ?n = "filter_iterations (m_a_trous r)"
  let ?w = "nat ((?i + 1) mod 2)"
  obtain k where k: "?i = int k" using assms(2) by (metis nat_0_le)
  have w: "slot (\<not> odd ?i) = ?w" by (simp add: slot_even)
  have wk: "slot (even k) = ?w" using slot_even [of "int k"] k by simp
  have 0: "local_ping_pong (a_trous_loop r c 0 ?i a_trous_init) = odd ?i"
    by (simp add: k a_trous_loop_state loop_state_ping_pong)
  note 1 = feedback_iteration_cmds [OF assms(1) refl, of c "odd ?i", unfolded w]
  note 2 = exec_feedback_iteration [OF assms(1) refl, of b c "odd ?i" s, unfolded w]
  have 3: "(\<exists>p ins. exec b (snd (render r c ddgi)) s (Img PrevImage)
                         = Shaded p (Img (ATrousImage ?w)) ins
                       \<and> pass_pipeline p = Some ATrousPipeline
                       \<and> pass_push p
                           = Some (ATrousFilterPC (a_trous_push_constants (r\<lparr>m_first_frame := False\<rparr>) ?i)))
              \<and> exec b (snd (render r c ddgi)) s (Img PrevImage)
                  \<noteq> exec b (snd (render r c ddgi)) s (Img (CurrentOutputImage (slot (ping_pong c))))
              \<and> (?i = ?n - 1 \<longrightarrow>
                   exec b (snd (render r c ddgi)) s (Img PrevImage)
                   = exec b (snd (render r c ddgi)) s
                       (Img (ATrousImage (read_idx (m_a_trous (fst (render r c ddgi)))))))"
    if d: "m_denoise r"
  proof -
    have lt: "int k < ?n" using assms(3) k by simp
    from frame_feedback [OF d assms(1) k lt, of b c ddgi s]
    obtain ins where
      p: "exec b (snd (render r c ddgi)) s (Img PrevImage)
            = Shaded (a_trous_pass (r\<lparr>m_first_frame := False\<rparr>) c (int k) (odd k))
                (Img (ATrousImage (slot (even k)))) ins"
      and l: "?n = int k + 1 \<longrightarrow>
            exec b (snd (render r c ddgi)) s (Img (ATrousImage (slot (even k))))
            = Shaded (a_trous_pass (r\<lparr>m_first_frame := False\<rparr>) c (int k) (odd k))
                (Img (ATrousImage (slot (even k)))) ins"
      by blast
    have a: "\<exists>p ins. exec b (snd (render r c ddgi)) s (Img PrevImage)
                         = Shaded p (Img (ATrousImage ?w)) ins
                       \<and> pass_pipeline p = Some ATrousPipeline
                       \<and> pass_push p
                           = Some (ATrousFilterPC (a_trous_push_constants (r\<lparr>m_first_frame := False\<rparr>) ?i))"
      using p by (intro exI [where x = "a_trous_pass (r\<lparr>m_first_frame := False\<rparr>) c (int k) (odd k)"]
                        exI [where x = ins])
                 (simp add: wk k a_trous_pass_def)
    from temporal_output_after_render [OF d, of b c ddgi s]
    obtain ins' where
      t: "exec b (snd (render r c ddgi)) s (Img (CurrentOutputImage (slot (ping_pong c))))
            = Shaded (temporal_accumulation_pass (r\<lparr>m_first_frame := False\<rparr>) c)
                (Img (CurrentOutputImage (slot (ping_pong c)))) ins'"
      by blast
    have b: "exec b (snd (render r c ddgi)) s (Img PrevImage)
               \<noteq> exec b (snd (render r c ddgi)) s (Img (CurrentOutputImage (slot (ping_pong c))))"
      unfolding p t by (rule distinct_pipelines)
    have c: "exec b (snd (render r c ddgi)) s (Img PrevImage)
                   = exec b (snd (render r c ddgi)) s
                       (Img (ATrousImage (read_idx (m_a_trous (fst (render r c ddgi))))))"
      if last: "?i = ?n - 1"
    proof -
      have n: "?n = int k + 1" using last k by simp
      have "final_write_idx ?n = nat (?n mod 2)" using n by (simp add: final_write_idx_def)
      also have "\<dots> = ?w" using last by simp
      finally have "read_idx (m_a_trous (fst (render r c ddgi))) = slot (even k)"
        using d wk by (simp add: fst_render_fields)
      then show ?thesis using p l n by simp
    qed
    from a b c show ?thesis by blast
  qed
  from 0 1 2 3 show ?thesis by blast
qed

theorem feedback_into_history_witness:
  "blur_as_input (m_temporal_accumulation feedback_last)
   \<and> 0 \<le> feedback_iteration (m_a_trous feedback_last)
   \<and> feedback_iteration (m_a_trous feedback_last) < filter_iterations (m_a_trous feedback_last)
   \<and> m_denoise feedback_last
   \<and> feedback_iteration (m_a_trous feedback_last) = filter_iterations (m_a_trous feedback_last) - 1
   \<and> exec no_bindings (snd (render feedback_last example_common example_ddgi)) Initial (Img PrevImage)
       = exec no_bindings (snd (render feedback_last example_common example_ddgi)) Initial
           (Img (ATrousImage (read_idx (m_a_trous (fst (render feedback_last example_common example_ddgi))))))
   \<and> exec no_bindings (snd (render feedback_last example_common example_ddgi)) Initial (Img PrevImage)
       \<noteq> exec no_bindings (snd (render feedback_last example_common example_ddgi)) Initial
           (Img (CurrentOutputImage (slot (ping_pong example_common))))
   \<and> read_idx (m_a_trous (fst (render feedback_last example_common example_ddgi))) = 0"
proof -
  have a: "blur_as_input (m_temporal_accumulation feedback_last)"
    by (simp add: feedback_last_def)
  have b: "0 \<le> feedback_iteration (m_a_trous feedback_last)"
    by (simp add: feedback_last_def)
  have c: "feedback_iteration (m_a_trous feedback_last) < filter_iterations (m_a_trous feedback_last)"
    by (simp add: feedback_last_def example_reflections_def example_defaults_def construct_def initial_first_frame_def)
  have d: "m_denoise feedback_last"
    by (simp add: feedback_last_def example_reflections_def example_defaults_def construct_def initial_first_frame_def)
  have e: "feedback_iteration (m_a_trous feedback_last) = filter_iterations (m_a_trous feedback_last) - 1"
    by (simp add: feedback_last_def example_reflections_def example_defaults_def construct_def initial_first_frame_def)
  have n: "filter_iterations (m_a_trous feedback_last) = 4"
    by (simp add: feedback_last_def example_reflections_def example_defaults_def construct_def initial_first_frame_def)
  have f: "read_idx (m_a_trous (fst (render feedback_last example_common example_ddgi))) = 0"
    using d by (simp add: fst_render_fields final_write_idx_def n)
  note t = feedback_into_history [OF a b c, of example_common no_bindings Initial example_ddgi]
  from t d e have
    "exec no_bindings (snd (render feedback_last example_common example_ddgi)) Initial (Img PrevImage)
       = exec no_bindings (snd (render feedback_last example_common example_ddgi)) Initial
           (Img (ATrousImage (read_idx (m_a_trous (fst (render feedback_last example_common example_ddgi))))))
     \<and> exec no_bindings (snd (render feedback_last example_common example_ddgi)) Initial (Img PrevImage)
       \<noteq> exec no_bindings (snd (render feedback_last example_common example_ddgi)) Initial
           (Img (CurrentOutputImage (slot (ping_pong example_common))))"
    by blast
  with a b c d e f show ?thesis by blast
qed

subsection \<open>C3: the filter with radius 0, and the filter with no iterations\<close>

text \<open>
  Claim C3, as amended. Running the A-Trous stage with \<open>radius = 0\<close> and at least one
  iteration is the identity on its input: whatever the tile classification and the
  weights, the stage runs to its end, the A-Trous slot that it exposes to consumers, slot
  \<open>read_idx\<close>, then holds the picture of the temporal-accumulation output of the frame,
  and that output itself is unchanged; after the frame the A-Trous output selection
  returns that slot. With \<open>filter_iterations = 0\<close> (or less), whatever
  the radius, the stage records its closing barrier only: no pass and no copy, and it
  changes no image. It still sets \<open>read_idx\<close> to 1 and so exposes A-Trous slot 1, which
  no pass of the frame writes and which keeps what it held before the frame: that slot is
  what \<open>output_ds\<close> returns under the A-Trous selection and under the upsample selection
  at full resolution, and what the upsample pass reads at reduced resolution.
\<close>

theorem a_trous_identity:
  "(radius (m_a_trous r) = 0 \<and> 1 \<le> filter_iterations (m_a_trous r) \<longrightarrow>
      map_option (\<lambda>P'. P' (ATrousImage (read_idx (m_a_trous (fst (a_trous_filter r c))))))
        (run_events sh (events b (snd (a_trous_filter r c))) P)
        = Some (P (CurrentOutputImage (slot (ping_pong c))))
      \<and> map_option (\<lambda>P'. P' (CurrentOutputImage (slot (ping_pong c))))
          (run_events sh (events b (snd (a_trous_filter r c))) P)
          = Some (P (CurrentOutputImage (slot (ping_pong c))))
      \<and> (m_denoise r \<and> m_current_output r = OUTPUT_ATROUS \<longrightarrow>
           output_ds (fst (render r c ddgi)) c
             = ATrousReadDS (read_idx (m_a_trous (fst (a_trous_filter r c))))))
   \<and> (filter_iterations (m_a_trous r) \<le> 0 \<longrightarrow>
        a_trous_filter r c
          = (r\<lparr>m_a_trous := (m_a_trous r)\<lparr>read_idx := 1\<rparr>\<rparr>, [a_trous_final_barrier 1])
        \<and> events b (snd (a_trous_filter r c)) = []
        \<and> exec b (snd (a_trous_filter r c)) s = s
        \<and> run_events sh (events b (snd (a_trous_filter r c))) P = Some P
        \<and> (m_denoise r \<longrightarrow>
             Img (ATrousImage 1) \<notin> written b (snd (render r c ddgi))
             \<and> exec b (snd (render r c ddgi)) s (Img (ATrousImage 1)) = s (Img (ATrousImage 1))
             \<and> (m_current_output r = OUTPUT_ATROUS
                 \<or> m_current_output r = OUTPUT_UPSAMPLE \<and> m_scale r = RAY_TRACE_SCALE_FULL_RES \<longrightarrow>
                 output_ds (fst (render r c ddgi)) c = ATrousReadDS 1)
             \<and> (m_scale r \<noteq> RAY_TRACE_SCALE_FULL_RES \<longrightarrow>
                 map pass_sets
                   (filter (\<lambda>p. pass_pipeline p = Some UpsamplePipeline)
                      (passes (events b (snd (render r c ddgi)))))
                   = [[UpsampleWriteDS, ATrousReadDS 1, GBufferOutputDS]])))"
proof -
  let ?n = "filter_iterations (m_a_trous r)"
  let ?run = "run_events sh (events b (snd (a_trous_filter r c))) P"
  let ?Q = "fold (\<lambda>j. after_iteration r c (int j) (odd j)) [0..<nat ?n] P"
  have A: "map_option (\<lambda>P'. P' (ATrousImage (read_idx (m_a_trous (fst (a_trous_filter r c)))))) ?run
             = Some (P (CurrentOutputImage (slot (ping_pong c))))
           \<and> map_option (\<lambda>P'. P' (CurrentOutputImage (slot (ping_pong c)))) ?run
               = Some (P (CurrentOutputImage (slot (ping_pong c))))
           \<and> (m_denoise r \<and> m_current_output r = OUTPUT_ATROUS \<longrightarrow>
                output_ds (fst (render r c ddgi)) c
                  = ATrousReadDS (read_idx (m_a_trous (fst (a_trous_filter r c)))))"
    if z: "radius (m_a_trous r) = 0" and n: "1 \<le> ?n"
  proof -
    have run: "?run = Some ?Q"
      using z by (rule run_a_trous_filter)
    have idx: "read_idx (m_a_trous (fst (a_trous_filter r c))) = nat ?n mod 2"
      using n by (simp add: a_trous_filter_closed final_write_idx_nat)
    have pos: "0 < nat ?n"
      using n by simp
    note inv = after_iterations [of r c "nat ?n" P "slot (ping_pong c)"]
    have 1: "?Q (ATrousImage (nat ?n mod 2)) = P (CurrentOutputImage (slot (ping_pong c)))"
      using inv pos by blast
    have 2: "?Q (CurrentOutputImage (slot (ping_pong c))) = P (CurrentOutputImage (slot (ping_pong c)))"
      using inv by blast
    have 3: "output_ds (fst (render r c ddgi)) c
               = ATrousReadDS (read_idx (m_a_trous (fst (a_trous_filter r c))))"
      if "m_denoise r" and "m_current_output r = OUTPUT_ATROUS"
      using that by (simp add: output_ds_def fst_render_fields a_trous_filter_closed)
    show ?thesis
      using 3 by (simp add: run idx 1 2)
  qed
  have B: "a_trous_filter r c
             = (r\<lparr>m_a_trous := (m_a_trous r)\<lparr>read_idx := 1\<rparr>\<rparr>, [a_trous_final_barrier 1])
           \<and> events b (snd (a_trous_filter r c)) = []
           \<and> exec b (snd (a_trous_filter r c)) s = s
           \<and> ?run = Some P"
    if n: "?n \<le> 0"
  proof -
    have 1: "a_trous_filter r c
             = (r\<lparr>m_a_trous := (m_a_trous r)\<lparr>read_idx := 1\<rparr>\<rparr>, [a_trous_final_barrier 1])"
      using n by (simp add: a_trous_filter_closed final_write_idx_def)
    have 2: "events b (snd (a_trous_filter r c)) = []"
      by (simp add: 1 a_trous_final_barrier_def)
    have 3: "exec b (snd (a_trous_filter r c)) s = s"
      by (simp only: exec_def 2) simp
    have 4: "?run = Some P"
      by (simp only: 2) simp
    from 1 2 3 4 show ?thesis by blast
  qed
  have C: "Img (ATrousImage 1) \<notin> written b (snd (render r c ddgi))
           \<and> exec b (snd (render r c ddgi)) s (Img (ATrousImage 1)) = s (Img (ATrousImage 1))"
    if n: "?n \<le> 0"
  proof -
    have 1: "Img (ATrousImage 1) \<notin> written b (snd (render r c ddgi))"
      using n by (rule a_trous_not_written_without_iterations)
    from 1 have "exec b (snd (render r c ddgi)) s (Img (ATrousImage 1)) = s (Img (ATrousImage 1))"
      by (rule exec_unwritten)
    with 1 show ?thesis by simp
  qed
  have D: "output_ds (fst (render r c ddgi)) c = ATrousReadDS 1"
    if "?n \<le> 0" and "m_denoise r"
      and "m_current_output r = OUTPUT_ATROUS
           \<or> m_current_output r = OUTPUT_UPSAMPLE \<and> m_scale r = RAY_TRACE_SCALE_FULL_RES"
    using that by (auto simp: output_ds_def fst_render_fields final_write_idx_def)
  have E: "map pass_sets
             (filter (\<lambda>p. pass_pipeline p = Some UpsamplePipeline)
                (passes (events b (snd (render r c ddgi)))))
             = [[UpsampleWriteDS, ATrousReadDS 1, GBufferOutputDS]]"
    if n: "?n \<le> 0" and d: "m_denoise r" and h: "m_scale r \<noteq> RAY_TRACE_SCALE_FULL_RES"
  proof -
    have k: "nat ?n = 0"
      using n by simp
    show ?thesis
      using d h n
      by (simp add: passes_render k ray_trace_pass_def reset_args_pass_def
          temporal_accumulation_pass_def upsample_pass_def a_trous_filter_closed
          final_write_idx_def)
  qed
  from A B C D E show ?thesis by blast
qed

theorem a_trous_identity_witness:
  "radius (m_a_trous radius_zero) = 0
   \<and> 1 \<le> filter_iterations (m_a_trous radius_zero)
   \<and> read_idx (m_a_trous (fst (a_trous_filter radius_zero example_common))) = 1
   \<and> map_option (\<lambda>P'. P' (ATrousImage 1) (3, 5))
       (run_events example_shading
          (events no_bindings (snd (a_trous_filter radius_zero example_common))) example_pictures)
       = Some 4
   \<and> example_pictures (CurrentOutputImage 0) (3, 5) = 4
   \<and> m_denoise radius_zero
   \<and> m_current_output radius_zero = OUTPUT_ATROUS
   \<and> output_ds (fst (render radius_zero example_common example_ddgi)) example_common
       = ATrousReadDS 1
   \<and> filter_iterations (m_a_trous radius_zero_no_iterations) \<le> 0
   \<and> m_denoise radius_zero_no_iterations
   \<and> m_current_output radius_zero_no_iterations = OUTPUT_ATROUS
   \<and> events no_bindings (snd (a_trous_filter radius_zero_no_iterations example_common)) = []
   \<and> output_ds (fst (render radius_zero_no_iterations example_common example_ddgi)) example_common
       = ATrousReadDS 1
   \<and> Img (ATrousImage 1)
       \<notin> written no_bindings (snd (render radius_zero_no_iterations example_common example_ddgi))
   \<and> m_scale radius_zero_no_iterations \<noteq> RAY_TRACE_SCALE_FULL_RES
   \<and> map pass_sets
       (filter (\<lambda>p. pass_pipeline p = Some UpsamplePipeline)
          (passes (events no_bindings
             (snd (render radius_zero_no_iterations example_common example_ddgi)))))
       = [[UpsampleWriteDS, ATrousReadDS 1, GBufferOutputDS]]"
proof -
  have a: "radius (m_a_trous radius_zero) = 0 \<and> 1 \<le> filter_iterations (m_a_trous radius_zero)"
    by (simp add: radius_zero_def)
  have i: "read_idx (m_a_trous (fst (a_trous_filter radius_zero example_common))) = 1"
    by (simp add: a_trous_filter_closed final_write_idx_def radius_zero_def)
  have c: "slot (ping_pong example_common) = 0"
    by (simp add: slot_def example_common_def)
  have v: "example_pictures (CurrentOutputImage 0) (3, 5) = 4"
    by (simp add: example_pictures_def)
  note t1 = a_trous_identity
    [where r = radius_zero and c = example_common and sh = example_shading and b = no_bindings
       and P = example_pictures and s = Initial and ddgi = example_ddgi]
  from t1 a have "map_option (\<lambda>P'. P' (ATrousImage (read_idx (m_a_trous
                      (fst (a_trous_filter radius_zero example_common))))))
       (run_events example_shading
          (events no_bindings (snd (a_trous_filter radius_zero example_common))) example_pictures)
       = Some (example_pictures (CurrentOutputImage (slot (ping_pong example_common))))"
    by blast
  then have 1: "map_option (\<lambda>P'. P' (ATrousImage 1) (3, 5))
       (run_events example_shading
          (events no_bindings (snd (a_trous_filter radius_zero example_common))) example_pictures)
       = Some 4"
    unfolding i c
    by (cases "run_events example_shading
          (events no_bindings (snd (a_trous_filter radius_zero example_common))) example_pictures")
       (auto simp: v)
  have g: "m_denoise radius_zero \<and> m_current_output radius_zero = OUTPUT_ATROUS"
    by (simp add: radius_zero_def example_reflections_def example_defaults_def construct_def)
  from t1 a g have "output_ds (fst (render radius_zero example_common example_ddgi)) example_common
       = ATrousReadDS (read_idx (m_a_trous (fst (a_trous_filter radius_zero example_common))))"
    by blast
  then have 6: "output_ds (fst (render radius_zero example_common example_ddgi)) example_common
       = ATrousReadDS 1"
    by (simp only: i)
  have b: "filter_iterations (m_a_trous radius_zero_no_iterations) \<le> 0"
    by (simp add: radius_zero_no_iterations_def)
  have d: "m_denoise radius_zero_no_iterations
           \<and> m_current_output radius_zero_no_iterations = OUTPUT_ATROUS"
    by (simp add: radius_zero_no_iterations_def example_reflections_def example_defaults_def
        construct_def)
  note t2 = a_trous_identity
    [where r = radius_zero_no_iterations and c = example_common and sh = example_shading
       and b = no_bindings and P = example_pictures and s = Initial and ddgi = example_ddgi]
  from t2 b have 2:
    "events no_bindings (snd (a_trous_filter radius_zero_no_iterations example_common)) = []"
    by blast
  from t2 b d have 3:
    "output_ds (fst (render radius_zero_no_iterations example_common example_ddgi)) example_common
       = ATrousReadDS 1"
    by blast
  from t2 b d have 4:
    "Img (ATrousImage 1)
       \<notin> written no_bindings (snd (render radius_zero_no_iterations example_common example_ddgi))"
    by blast
  have h: "m_scale radius_zero_no_iterations \<noteq> RAY_TRACE_SCALE_FULL_RES"
    by (simp add: radius_zero_no_iterations_def example_reflections_def construct_def)
  from t2 b d h have 5:
    "map pass_sets
       (filter (\<lambda>p. pass_pipeline p = Some UpsamplePipeline)
          (passes (events no_bindings
             (snd (render radius_zero_no_iterations example_common example_ddgi)))))
       = [[UpsampleWriteDS, ATrousReadDS 1, GBufferOutputDS]]"
    by blast
  from a i 1 v g 6 b d 2 3 4 h 5 show ?thesis by blast
qed

text \<open>
  The claim as stated fails where the filter has no iterations, also with radius 0: the
  stage does not hand the temporal-accumulation output on. On pictures in which that
  output holds a ramp and the A-Trous images are black, the slot exposed after the stage
  is black. After a frame of the same instance the exposed A-Trous slot 1 still holds
  its initial contents, which are not the contents of the temporal-accumulation output
  of that frame.
\<close>

theorem zero_iterations_counterexample:
  "radius (m_a_trous radius_zero_no_iterations) = 0
   \<and> filter_iterations (m_a_trous radius_zero_no_iterations) = 0
   \<and> map_option
       (\<lambda>P'. P' (ATrousImage (read_idx (m_a_trous
                 (fst (a_trous_filter radius_zero_no_iterations example_common))))) (3, 5))
       (run_events example_shading
          (events no_bindings (snd (a_trous_filter radius_zero_no_iterations example_common)))
          example_pictures)
       = Some 0
   \<and> example_pictures (CurrentOutputImage (slot (ping_pong example_common))) (3, 5) = 4
   \<and> output_ds (fst (render radius_zero_no_iterations example_common example_ddgi)) example_common
       = ATrousReadDS 1
   \<and> exec no_bindings (snd (render radius_zero_no_iterations example_common example_ddgi)) Initial
        (Img (ATrousImage 1))
       = Initial (Img (ATrousImage 1))
   \<and> exec no_bindings (snd (render radius_zero_no_iterations example_common example_ddgi)) Initial
        (Img (ATrousImage 1))
       \<noteq> exec no_bindings (snd (render radius_zero_no_iterations example_common example_ddgi))
            Initial (Img (CurrentOutputImage (slot (ping_pong example_common))))"
proof -
  have n: "filter_iterations (m_a_trous radius_zero_no_iterations) \<le> 0"
    by (simp add: radius_zero_no_iterations_def)
  have f: "m_denoise radius_zero_no_iterations
           \<and> m_current_output radius_zero_no_iterations = OUTPUT_ATROUS
           \<and> filter_iterations (m_a_trous radius_zero_no_iterations) = 0
           \<and> radius (m_a_trous radius_zero_no_iterations) = 0"
    by (simp add: radius_zero_no_iterations_def example_reflections_def example_defaults_def
        construct_def)
  then have d: "m_denoise radius_zero_no_iterations" by simp
  have e: "a_trous_filter radius_zero_no_iterations example_common
           = (radius_zero_no_iterations
                \<lparr>m_a_trous := (m_a_trous radius_zero_no_iterations)\<lparr>read_idx := 1\<rparr>\<rparr>,
              [a_trous_final_barrier 1])"
    using n by (simp add: a_trous_filter_closed final_write_idx_def)
  have 0: "map_option
       (\<lambda>P'. P' (ATrousImage (read_idx (m_a_trous
                 (fst (a_trous_filter radius_zero_no_iterations example_common))))) (3, 5))
       (run_events example_shading
          (events no_bindings (snd (a_trous_filter radius_zero_no_iterations example_common)))
          example_pictures)
       = Some 0"
    unfolding e by (simp add: a_trous_final_barrier_def example_pictures_def)
  have v: "example_pictures (CurrentOutputImage (slot (ping_pong example_common))) (3, 5) = 4"
    by (simp add: example_pictures_def)
  have 1: "output_ds (fst (render radius_zero_no_iterations example_common example_ddgi)) example_common
     = ATrousReadDS 1"
    using f by (simp add: output_ds_def fst_render_fields final_write_idx_def)
  have 2: "exec no_bindings (snd (render radius_zero_no_iterations example_common example_ddgi)) Initial
        (Img (ATrousImage 1)) = Initial (Img (ATrousImage 1))"
    by (rule exec_unwritten) (rule a_trous_not_written_without_iterations [OF n])
  from temporal_output_after_render [OF d, of no_bindings example_common example_ddgi Initial]
  obtain ins where 3:
    "exec no_bindings (snd (render radius_zero_no_iterations example_common example_ddgi)) Initial
       (Img (CurrentOutputImage (slot (ping_pong example_common))))
     = Shaded (temporal_accumulation_pass (radius_zero_no_iterations\<lparr>m_first_frame := False\<rparr>)
                 example_common)
         (Img (CurrentOutputImage (slot (ping_pong example_common)))) ins"
    by blast
  have 4: "exec no_bindings (snd (render radius_zero_no_iterations example_common example_ddgi)) Initial
        (Img (ATrousImage 1))
       \<noteq> exec no_bindings (snd (render radius_zero_no_iterations example_common example_ddgi))
            Initial (Img (CurrentOutputImage (slot (ping_pong example_common))))"
    by (simp only: 2 3) simp
  from f 0 v 1 2 4 show ?thesis by blast
qed
subsection \<open>C4: the order of the passes and the barrier before the indirect dispatches\<close>

text \<open>
  Claim C4. In a frame with denoising enabled, the passes of \<open>render\<close> are, in this
  order: the ray trace, the reset-args dispatch, the temporal-accumulation (reprojection)
  dispatch, then for each filter iteration the copy-tiles and the A-Trous dispatch, both
  indirect, and last the upsample dispatch when the scale is not full resolution. The
  command right after the temporal-accumulation dispatch is a pipeline barrier whose buffer
  barriers take the two dispatch-argument buffers from shader-write to
  indirect-command-read access; no indirect dispatch is recorded before it.
\<close>

theorem render_pass_order:
  assumes "m_denoise r"
  shows "map (\<lambda>p. (pass_pipeline p, pass_work p)) (passes (events b (snd (render r c ddgi)))) =
           [(Some RayTracePipeline, TracedRays (m_width r) (m_height r) 1),
            (Some ResetArgsPipeline, Dispatched 1 1 1),
            (Some TemporalAccumulationPipeline,
             Dispatched (ceil_div (m_width r) TEMPORAL_ACCUMULATION_NUM_THREADS_X)
                        (ceil_div (m_height r) TEMPORAL_ACCUMULATION_NUM_THREADS_Y) 1)]
           @ concat (replicate (nat (filter_iterations (m_a_trous r)))
               [(Some CopyTilesPipeline, DispatchedIndirect CopyDispatchArgsBuffer),
                (Some ATrousPipeline, DispatchedIndirect DenoiseDispatchArgsBuffer)])
           @ (if m_scale r \<noteq> RAY_TRACE_SCALE_FULL_RES
              then [(Some UpsamplePipeline,
                     Dispatched (ceil_div (swap_chain_width (m_backend r)) 8)
                                (ceil_div (swap_chain_height (m_backend r)) 8) 1)]
              else [])
         \<and> (\<exists>pre post mbs ibs.
               snd (render r c ddgi) =
                 pre
                 @ [Dispatch (ceil_div (m_width r) TEMPORAL_ACCUMULATION_NUM_THREADS_X)
                             (ceil_div (m_height r) TEMPORAL_ACCUMULATION_NUM_THREADS_Y) 1,
                    PipelineBarrier mbs ibs
                      [BufferMemoryBarrier DenoiseTileCoordsBuffer {ACCESS_SHADER_WRITE} {ACCESS_SHADER_READ},
                       BufferMemoryBarrier DenoiseDispatchArgsBuffer
                         {ACCESS_SHADER_WRITE} {ACCESS_INDIRECT_COMMAND_READ},
                       BufferMemoryBarrier CopyTileCoordsBuffer {ACCESS_SHADER_WRITE} {ACCESS_SHADER_READ},
                       BufferMemoryBarrier CopyDispatchArgsBuffer
                         {ACCESS_SHADER_WRITE} {ACCESS_INDIRECT_COMMAND_READ}]
                      {STAGE_COMPUTE_SHADER} {STAGE_COMPUTE_SHADER, STAGE_DRAW_INDIRECT}]
                 @ post
               \<and> compute_pipeline (bind_all b pre) = Some TemporalAccumulationPipeline
               \<and> (\<forall>buf. DispatchIndirect buf \<notin> set pre))"
proof
  show "map (\<lambda>p. (pass_pipeline p, pass_work p)) (passes (events b (snd (render r c ddgi)))) =
           [(Some RayTracePipeline, TracedRays (m_width r) (m_height r) 1),
            (Some ResetArgsPipeline, Dispatched 1 1 1),
            (Some TemporalAccumulationPipeline,
             Dispatched (ceil_div (m_width r) TEMPORAL_ACCUMULATION_NUM_THREADS_X)
                        (ceil_div (m_height r) TEMPORAL_ACCUMULATION_NUM_THREADS_Y) 1)]
           @ concat (replicate (nat (filter_iterations (m_a_trous r)))
               [(Some CopyTilesPipeline, DispatchedIndirect CopyDispatchArgsBuffer),
                (Some ATrousPipeline, DispatchedIndirect DenoiseDispatchArgsBuffer)])
           @ (if m_scale r \<noteq> RAY_TRACE_SCALE_FULL_RES
              then [(Some UpsamplePipeline,
                     Dispatched (ceil_div (swap_chain_width (m_backend r)) 8)
                                (ceil_div (swap_chain_height (m_backend r)) 8) 1)]
              else [])"
    using assms
    by (simp add: passes_render map_concat_pairs concat_map_const ray_trace_pass_def
        reset_args_pass_def temporal_accumulation_pass_def copy_tiles_pass_def a_trous_pass_def
        upsample_pass_def a_trous_filter_closed)
next
  let ?r1 = "r\<lparr>m_first_frame := False\<rparr>"
  let ?pre = "snd (clear_images r c) @ ray_trace ?r1 c ddgi @ reset_args ?r1
              @ take 4 (temporal_accumulation ?r1 c)"
  let ?post = "snd (a_trous_filter ?r1 c)
               @ (if m_scale r \<noteq> RAY_TRACE_SCALE_FULL_RES
                  then upsample (fst (a_trous_filter ?r1 c)) else [])"
  have split: "temporal_accumulation ?r1 c
                = take 4 (temporal_accumulation ?r1 c) @ drop 4 (temporal_accumulation ?r1 c)"
    by simp
  have 1: "snd (render r c ddgi) = ?pre @ drop 4 (temporal_accumulation ?r1 c) @ ?post"
    using assms by (subst render_cmds) (simp add: split [symmetric])
  have 2: "compute_pipeline (bind_all b ?pre) = Some TemporalAccumulationPipeline"
    by (simp add: bind_all_append temporal_accumulation_def)
  have 3: "\<forall>buf. DispatchIndirect buf \<notin> set ?pre"
    by (simp add: clear_images_def ray_trace_def reset_args_def temporal_accumulation_def)
  show "\<exists>pre post mbs ibs.
               snd (render r c ddgi) =
                 pre
                 @ [Dispatch (ceil_div (m_width r) TEMPORAL_ACCUMULATION_NUM_THREADS_X)
                             (ceil_div (m_height r) TEMPORAL_ACCUMULATION_NUM_THREADS_Y) 1,
                    PipelineBarrier mbs ibs
                      [BufferMemoryBarrier DenoiseTileCoordsBuffer {ACCESS_SHADER_WRITE} {ACCESS_SHADER_READ},
                       BufferMemoryBarrier DenoiseDispatchArgsBuffer
                         {ACCESS_SHADER_WRITE} {ACCESS_INDIRECT_COMMAND_READ},
                       BufferMemoryBarrier CopyTileCoordsBuffer {ACCESS_SHADER_WRITE} {ACCESS_SHADER_READ},
                       BufferMemoryBarrier CopyDispatchArgsBuffer
                         {ACCESS_SHADER_WRITE} {ACCESS_INDIRECT_COMMAND_READ}]
                      {STAGE_COMPUTE_SHADER} {STAGE_COMPUTE_SHADER, STAGE_DRAW_INDIRECT}]
                 @ post
               \<and> compute_pipeline (bind_all b pre) = Some TemporalAccumulationPipeline
               \<and> (\<forall>buf. DispatchIndirect buf \<notin> set pre)"
    apply (rule exI [where x = ?pre])
    apply (rule exI [where x = ?post])
    using 1 2 3 by (simp add: temporal_accumulation_def)
qed

theorem render_pass_order_witness:
  "m_denoise example_reflections
   \<and> map (\<lambda>p. (pass_pipeline p, pass_work p))
         (passes (events no_bindings (snd (render example_reflections example_common example_ddgi)))) =
       [(Some RayTracePipeline, TracedRays 640 360 1),
        (Some ResetArgsPipeline, Dispatched 1 1 1),
        (Some TemporalAccumulationPipeline, Dispatched 80 45 1),
        (Some CopyTilesPipeline, DispatchedIndirect CopyDispatchArgsBuffer),
        (Some ATrousPipeline, DispatchedIndirect DenoiseDispatchArgsBuffer),
        (Some CopyTilesPipeline, DispatchedIndirect CopyDispatchArgsBuffer),
        (Some ATrousPipeline, DispatchedIndirect DenoiseDispatchArgsBuffer),
        (Some CopyTilesPipeline, DispatchedIndirect CopyDispatchArgsBuffer),
        (Some ATrousPipeline, DispatchedIndirect DenoiseDispatchArgsBuffer),
        (Some CopyTilesPipeline, DispatchedIndirect CopyDispatchArgsBuffer),
        (Some ATrousPipeline, DispatchedIndirect DenoiseDispatchArgsBuffer),
        (Some UpsamplePipeline, Dispatched 160 90 1)]"
proof -
  have h: "m_denoise example_reflections"
    by (simp add: example_reflections_def example_defaults_def construct_def initial_first_frame_def)
  have n: "nat (filter_iterations (m_a_trous example_reflections)) = Suc (Suc (Suc (Suc 0)))"
    by (simp add: example_reflections_def example_defaults_def construct_def initial_first_frame_def)
  show ?thesis
    using h render_pass_order [OF h, of no_bindings example_common example_ddgi]
    by (simp add: n)
       (simp add: example_reflections_def example_defaults_def construct_def initial_first_frame_def example_backend_def
          ceil_div_def TEMPORAL_ACCUMULATION_NUM_THREADS_X_def TEMPORAL_ACCUMULATION_NUM_THREADS_Y_def)
qed

subsection \<open>C5: when the first-frame flag is reset\<close>

text \<open>
  Claim C5 says that the history images are cleared in the first frame only and that the
  first-frame flag goes from true to false once, after the first frame's \<open>render\<close>
  completes. The clears are as claimed: in a run of frames of a freshly constructed
  instance the first frame clears the previous reprojection image and the output and
  moments images of the slot opposite to the frame parity, all to zero, and no later frame
  records a clear. The flag is not: \<open>m_first_frame\<close> is true at construction, and
  \<open>clear_images\<close>, the first statement of \<open>render\<close>, resets it before any pass is
  recorded. The commands of a \<open>render\<close> are the clears followed by the commands that the
  same instance records with the flag already false, and the instance it leaves behind is
  the same too, so no pass of the first frame can tell that it is the first. Only the
  global \<open>first_frame\<close> of the frame loop is reset after the frame. The theorem states
  this for every instance and evaluates it on the first \<open>render\<close> of a constructed one.
\<close>

theorem first_frame_reset_before_passes:
  "m_first_frame (construct defaults backend scale)
   \<and> fst (clear_images r c) = r\<lparr>m_first_frame := False\<rparr>
   \<and> snd (render r c ddgi)
       = snd (clear_images r c) @ snd (render (r\<lparr>m_first_frame := False\<rparr>) c ddgi)
   \<and> fst (render r c ddgi) = fst (render (r\<lparr>m_first_frame := False\<rparr>) c ddgi)
   \<and> passes (events b (snd (render r c ddgi)))
       = passes (events b (snd (render (r\<lparr>m_first_frame := False\<rparr>) c ddgi)))
   \<and> first_frame (snd (fst (frame (r, c) ddgi))) = False
   \<and> m_first_frame example_reflections
   \<and> first_frame example_common
   \<and> fst (clear_images example_reflections example_common) = steady_reflections
   \<and> \<not> m_first_frame steady_reflections
   \<and> snd (render example_reflections example_common example_ddgi)
       = snd (clear_images example_reflections example_common)
         @ snd (render steady_reflections example_common example_ddgi)
   \<and> cleared (events b (snd (clear_images example_reflections example_common)))
       = [(PrevImage, zero_color), (CurrentOutputImage 1, zero_color),
          (CurrentMomentsImage 1, zero_color)]
   \<and> map (\<lambda>cmds. cleared (events b cmds))
       (snd (run (construct defaults backend scale, c) ddgi us))
       = (case us of
            [] \<Rightarrow> []
          | u # us' \<Rightarrow>
              [(PrevImage, zero_color),
               (CurrentOutputImage (slot (\<not> ping_pong c)), zero_color),
               (CurrentMomentsImage (slot (\<not> ping_pong c)), zero_color)]
              # replicate (length us') [])"
proof -
  have 1: "m_first_frame (construct defaults backend scale)"
    by (simp add: construct_def initial_first_frame_def)
  have 2: "fst (clear_images r c) = r\<lparr>m_first_frame := False\<rparr>"
    by (rule fst_clear_images)
  note 3 = render_after_clear [of r c ddgi]
  have 4: "passes (events b (snd (render r c ddgi)))
       = passes (events b (snd (render (r\<lparr>m_first_frame := False\<rparr>) c ddgi)))"
    by (simp add: passes_render)
  have 5: "first_frame (snd (fst (frame (r, c) ddgi))) = False"
    by (simp add: frame_snd_state end_frame_def Let_def)
  have 6: "m_first_frame example_reflections"
    by (simp add: example_reflections_def construct_def initial_first_frame_def)
  have 7: "first_frame example_common"
    by (simp add: example_common_def)
  have 8: "fst (clear_images example_reflections example_common) = steady_reflections"
    by (simp add: fst_clear_images steady_reflections_def)
  have 9: "\<not> m_first_frame steady_reflections"
    by (simp add: steady_reflections_def)
  have 10: "cleared (events b (snd (clear_images example_reflections example_common)))
       = [(PrevImage, zero_color), (CurrentOutputImage 1, zero_color),
          (CurrentMomentsImage 1, zero_color)]"
    using 6 by (simp add: events_clear_images slot_def example_common_def)
  have 11: "snd (render example_reflections example_common example_ddgi)
       = snd (clear_images example_reflections example_common)
         @ snd (render steady_reflections example_common example_ddgi)"
    using render_after_clear [of example_reflections example_common example_ddgi]
    by (simp only: steady_reflections_def)
  note 12 = run_constructed [of b defaults backend scale c ddgi us]
  from 1 2 3 4 5 6 7 8 9 10 11 12 show ?thesis by blast
qed
subsection \<open>C6: the slots of temporal accumulation across frames\<close>



subsection \<open>C7: the step size of an iteration\<close>

text \<open>
  Claim C7, as amended. The step size is \<open>1 << i\<close> on a 32-bit signed integer. When the
  filter runs at most 31 iterations (so every iteration index is below 31), the A-Trous
  pass of iteration \<open>i\<close> gets the push constant \<open>step_size = 2 ^ i\<close>: the passes of the
  A-Trous pipeline carry, in order, the step sizes \<open>1, 2, 4, \<dots>\<close>.
\<close>

theorem step_size_power_of_two:
  assumes "m_denoise r" and "filter_iterations (m_a_trous r) \<le> 31"
  shows "map (map_option sint \<circ> step_size_of)
           (filter (\<lambda>p. pass_pipeline p = Some ATrousPipeline)
              (passes (events b (snd (render r c ddgi)))))
         = map (\<lambda>j. Some (2 ^ j)) [0..<nat (filter_iterations (m_a_trous r))]"
proof -
  have "Some (sint (step_size (int j))) = Some ((2::int) ^ j)"
    if "j \<in> set [0..<nat (filter_iterations (m_a_trous r))]" for j
  proof -
    from that assms(2) have "int j < 31" by auto
    then show ?thesis using sint_step_size [of "int j"] by simp
  qed
  then have "map (\<lambda>j. Some (sint (step_size (int j)))) [0..<nat (filter_iterations (m_a_trous r))]
             = map (\<lambda>j. Some (2 ^ j)) [0..<nat (filter_iterations (m_a_trous r))]"
    by (intro map_cong refl)
  then show ?thesis
    using assms(1) by (simp only: signed_step_sizes_render if_True)
qed

theorem step_size_power_of_two_witness:
  "m_denoise example_reflections
   \<and> filter_iterations (m_a_trous example_reflections) \<le> 31
   \<and> map (map_option sint \<circ> step_size_of)
        (filter (\<lambda>p. pass_pipeline p = Some ATrousPipeline)
           (passes (events no_bindings (snd (render example_reflections example_common example_ddgi)))))
      = [Some 1, Some 2, Some 4, Some 8]"
proof -
  have d: "m_denoise example_reflections"
    by (simp add: example_reflections_def example_defaults_def construct_def initial_first_frame_def)
  have n: "filter_iterations (m_a_trous example_reflections) \<le> 31"
    by (simp add: example_reflections_def example_defaults_def construct_def initial_first_frame_def)
  have k: "nat (filter_iterations (m_a_trous example_reflections)) = Suc (Suc (Suc (Suc 0)))"
    by (simp add: example_reflections_def example_defaults_def construct_def initial_first_frame_def)
  show ?thesis
    using d n step_size_power_of_two [OF d n, of no_bindings example_common example_ddgi]
    by (simp add: k)
qed

text \<open>
  The claim as stated, for every iteration, fails at iteration 31 of a filter that runs 32
  iterations: there \<open>1 << 31\<close> is the least 32-bit integer, not \<open>2 ^ 31\<close>.
\<close>

theorem step_size_counterexample:
  "map (map_option sint \<circ> step_size_of)
     (filter (\<lambda>p. pass_pipeline p = Some ATrousPipeline)
        (passes (events no_bindings (snd (render many_iterations example_common example_ddgi))))) ! 31
     = Some (- 2147483648)
   \<and> (- 2147483648 :: int) \<noteq> 2 ^ 31"
proof -
  have d: "m_denoise many_iterations"
    by (simp add: many_iterations_def example_reflections_def example_defaults_def construct_def initial_first_frame_def)
  have n: "nat (filter_iterations (m_a_trous many_iterations)) = 32"
    by (simp add: many_iterations_def)
  have "map (map_option sint \<circ> step_size_of)
     (filter (\<lambda>p. pass_pipeline p = Some ATrousPipeline)
        (passes (events no_bindings (snd (render many_iterations example_common example_ddgi)))))
     = map (\<lambda>j. Some (sint (step_size (int j)))) [0..<32]"
    using d by (simp only: signed_step_sizes_render if_True n)
  then show ?thesis
    by (simp add: sint_step_size_31)
qed

subsection \<open>C8: the global-illumination flags in the first frame\<close>

text \<open>
  Claim C8 says that in the first frame after construction the push-constant flags
  \<open>sample_gi\<close> and \<open>approximate_with_ddgi\<close> are forced to 0. The three passes do compute
  them as \<open>flag && !m_first_frame\<close>, but \<open>render\<close> calls \<open>clear_images\<close> first, and that
  has reset \<open>m_first_frame\<close> by the time any push constant is filled in. The theorem
  evaluates the first frame of a constructed instance with both flags set: the ray-trace
  pass gets \<open>sample_gi = 1\<close> and \<open>approximate_with_ddgi = 1\<close>, and the
  temporal-accumulation pass and every A-Trous pass get \<open>approximate_with_ddgi = 1\<close>.
\<close>

theorem first_frame_flags_not_forced:
  "m_first_frame two_iterations
   \<and> sample_gi (m_ray_trace two_iterations)
   \<and> approximate_with_ddgi (m_ray_trace two_iterations)
   \<and> map (\<lambda>p. (pass_pipeline p, map_option gi_flags (pass_push p)))
        (passes (events no_bindings (snd (render two_iterations example_common example_ddgi))))
      = [(Some RayTracePipeline, Some [1, 1]),
         (Some ResetArgsPipeline, None),
         (Some TemporalAccumulationPipeline, Some [1]),
         (Some CopyTilesPipeline, None),
         (Some ATrousPipeline, Some [1]),
         (Some CopyTilesPipeline, None),
         (Some ATrousPipeline, Some [1]),
         (Some UpsamplePipeline, Some [])]"
proof -
  have a: "m_first_frame two_iterations \<and> sample_gi (m_ray_trace two_iterations)
           \<and> approximate_with_ddgi (m_ray_trace two_iterations) \<and> m_denoise two_iterations
           \<and> m_scale two_iterations \<noteq> RAY_TRACE_SCALE_FULL_RES"
    by (simp add: two_iterations_def example_reflections_def example_defaults_def construct_def initial_first_frame_def)
  have n: "nat (filter_iterations (m_a_trous two_iterations)) = Suc (Suc 0)"
    by (simp add: two_iterations_def)
  show ?thesis
    using a
    by (simp add: passes_render n ray_trace_pass_def reset_args_pass_def
        temporal_accumulation_pass_def copy_tiles_pass_def a_trous_pass_def upsample_pass_def
        ray_trace_push_constants_def temporal_accumulation_push_constants_def
        a_trous_push_constants_def)
qed

subsection \<open>C9: when the upsample pass is recorded\<close>

text \<open>
  Claim C9. The upsample pass is recorded in a frame if and only if denoising is enabled
  and the ray-trace scale of the instance is not full resolution; it is then recorded
  exactly once. At full resolution, or with denoising disabled, no upsample dispatch is
  recorded and the upsample pipeline is not even bound.
\<close>

theorem upsample_iff_reduced_resolution:
  "(Some UpsamplePipeline \<in> pass_pipeline ` set (passes (events b (snd (render r c ddgi)))))
     = (m_denoise r \<and> m_scale r \<noteq> RAY_TRACE_SCALE_FULL_RES)
   \<and> length (filter (\<lambda>p. pass_pipeline p = Some UpsamplePipeline)
               (passes (events b (snd (render r c ddgi)))))
     = (if m_denoise r \<and> m_scale r \<noteq> RAY_TRACE_SCALE_FULL_RES then 1 else 0)
   \<and> (BindPipeline BIND_POINT_COMPUTE UpsamplePipeline \<in> set (snd (render r c ddgi)))
     = (m_denoise r \<and> m_scale r \<noteq> RAY_TRACE_SCALE_FULL_RES)"
proof -
  let ?ps = "passes (events b (snd (render r c ddgi)))"
  let ?P = "\<lambda>p. pass_pipeline p = Some UpsamplePipeline"
  have "(Some UpsamplePipeline \<in> pass_pipeline ` set ?ps) = (filter ?P ?ps \<noteq> [])"
    by (force simp: filter_empty_conv image_iff)
  then have 1: "(Some UpsamplePipeline \<in> pass_pipeline ` set ?ps)
                 = (m_denoise r \<and> m_scale r \<noteq> RAY_TRACE_SCALE_FULL_RES)"
    by (simp add: upsample_passes_render)
  have 2: "length (filter ?P ?ps)
            = (if m_denoise r \<and> m_scale r \<noteq> RAY_TRACE_SCALE_FULL_RES then 1 else 0)"
    by (simp add: upsample_passes_render)
  have it: "BindPipeline BIND_POINT_COMPUTE UpsamplePipeline \<notin> set (a_trous_iteration_cmds r' c i pp)"
    for r' i pp
    by (simp add: a_trous_iteration_cmds_def a_trous_barrier_def copy_tiles_cmds_def
        a_trous_dispatch_cmds_def feedback_cmds_def)
  have 3: "(BindPipeline BIND_POINT_COMPUTE UpsamplePipeline \<in> set (snd (render r c ddgi)))
            = (m_denoise r \<and> m_scale r \<noteq> RAY_TRACE_SCALE_FULL_RES)"
    by (auto simp: render_cmds a_trous_filter_closed it clear_images_def ray_trace_def
        reset_args_def temporal_accumulation_def a_trous_final_barrier_def upsample_def)
  from 1 2 3 show ?thesis by blast
qed

theorem upsample_iff_reduced_resolution_witness:
  "m_denoise example_reflections
   \<and> m_scale example_reflections \<noteq> RAY_TRACE_SCALE_FULL_RES
   \<and> Some UpsamplePipeline
       \<in> pass_pipeline ` set (passes (events no_bindings
             (snd (render example_reflections example_common example_ddgi))))
   \<and> m_scale full_resolution = RAY_TRACE_SCALE_FULL_RES
   \<and> Some UpsamplePipeline
       \<notin> pass_pipeline ` set (passes (events no_bindings
             (snd (render full_resolution example_common example_ddgi))))"
proof -
  have a: "m_denoise example_reflections \<and> m_scale example_reflections \<noteq> RAY_TRACE_SCALE_FULL_RES"
    by (simp add: example_reflections_def example_defaults_def construct_def initial_first_frame_def)
  have b: "m_scale full_resolution = RAY_TRACE_SCALE_FULL_RES"
    by (simp add: full_resolution_def construct_def initial_first_frame_def)
  show ?thesis
    using a b
      upsample_iff_reduced_resolution [of no_bindings example_reflections example_common example_ddgi]
      upsample_iff_reduced_resolution [of no_bindings full_resolution example_common example_ddgi]
    by blast
qed

subsection \<open>C10: \<open>output_ds\<close> returns an image written in the current frame\<close>

text \<open>
  Claim C10, as amended. When the filter runs at least one iteration, the image behind
  the descriptor set that \<open>output_ds\<close> returns after \<open>render\<close> is written by a command of
  that \<open>render\<close>, whatever output is selected. With denoising disabled \<open>output_ds\<close>
  returns the ray-trace image whatever is selected; with the upsample output selected at
  full resolution it returns the A-Trous slot recorded in \<open>read_idx\<close>, and the upsample
  image is indeed not written in such a frame.
\<close>

theorem output_ds_written_this_frame:
  assumes "1 \<le> filter_iterations (m_a_trous r)"
  shows "set (ds_resources (output_ds (fst (render r c ddgi)) c)) \<subseteq> written b (snd (render r c ddgi))
         \<and> (\<not> m_denoise r \<longrightarrow> output_ds (fst (render r c ddgi)) c = RayTraceReadDS)
         \<and> (m_denoise r \<and> m_current_output r = OUTPUT_UPSAMPLE
              \<and> m_scale r = RAY_TRACE_SCALE_FULL_RES \<longrightarrow>
              output_ds (fst (render r c ddgi)) c
                = ATrousReadDS (read_idx (m_a_trous (fst (render r c ddgi))))
              \<and> Img UpsampleImage \<notin> written b (snd (render r c ddgi)))"
proof -
  let ?n = "filter_iterations (m_a_trous r)"
  let ?r1 = "r\<lparr>m_first_frame := False\<rparr>"
  have last: "Img (ATrousImage (final_write_idx ?n))
           \<in> all_written (concat (map (\<lambda>j. iteration_events ?r1 c (int j) (odd j)) [0..<nat ?n]))"
    using assms by (rule last_slot_written)
  have 1: "set (ds_resources (output_ds (fst (render r c ddgi)) c)) \<subseteq> written b (snd (render r c ddgi))"
    using last by (cases "m_current_output r") (simp_all add: output_ds_def fst_render_fields written_render)
  have 2: "\<not> m_denoise r \<longrightarrow> output_ds (fst (render r c ddgi)) c = RayTraceReadDS"
    by (simp add: output_ds_def fst_render_fields)
  have 3: "m_denoise r \<and> m_current_output r = OUTPUT_UPSAMPLE
              \<and> m_scale r = RAY_TRACE_SCALE_FULL_RES \<longrightarrow>
              output_ds (fst (render r c ddgi)) c
                = ATrousReadDS (read_idx (m_a_trous (fst (render r c ddgi))))
              \<and> Img UpsampleImage \<notin> written b (snd (render r c ddgi))"
    using upsample_not_written_by_iterations [of ?r1 c "nat ?n"]
    by (simp add: output_ds_def fst_render_fields written_render all_written_clear_images)
  from 1 2 3 show ?thesis by blast
qed

theorem output_ds_written_this_frame_witness:
  "1 \<le> filter_iterations (m_a_trous example_reflections)
   \<and> set (ds_resources (output_ds (fst (render example_reflections example_common example_ddgi))
             example_common))
       \<subseteq> written no_bindings (snd (render example_reflections example_common example_ddgi))
   \<and> 1 \<le> filter_iterations (m_a_trous no_denoise)
   \<and> \<not> m_denoise no_denoise
   \<and> output_ds (fst (render no_denoise example_common example_ddgi)) example_common = RayTraceReadDS
   \<and> 1 \<le> filter_iterations (m_a_trous full_resolution)
   \<and> m_denoise full_resolution
   \<and> m_current_output full_resolution = OUTPUT_UPSAMPLE
   \<and> m_scale full_resolution = RAY_TRACE_SCALE_FULL_RES
   \<and> Img UpsampleImage
       \<notin> written no_bindings (snd (render full_resolution example_common example_ddgi))"
proof -
  have a: "1 \<le> filter_iterations (m_a_trous example_reflections)"
    by (simp add: example_reflections_def example_defaults_def construct_def initial_first_frame_def)
  have b: "1 \<le> filter_iterations (m_a_trous no_denoise) \<and> \<not> m_denoise no_denoise"
    by (simp add: no_denoise_def example_reflections_def example_defaults_def construct_def initial_first_frame_def)
  have c: "1 \<le> filter_iterations (m_a_trous full_resolution) \<and> m_denoise full_resolution
           \<and> m_current_output full_resolution = OUTPUT_UPSAMPLE
           \<and> m_scale full_resolution = RAY_TRACE_SCALE_FULL_RES"
    by (simp add: full_resolution_def example_defaults_def construct_def initial_first_frame_def)
  from a have a': "1 \<le> filter_iterations (m_a_trous example_reflections)" .
  from b have b': "1 \<le> filter_iterations (m_a_trous no_denoise)" by simp
  from c have c': "1 \<le> filter_iterations (m_a_trous full_resolution)" by simp
  show ?thesis
    using a b c
      output_ds_written_this_frame [OF a', of example_common example_ddgi no_bindings]
      output_ds_written_this_frame [OF b', of example_common example_ddgi no_bindings]
      output_ds_written_this_frame [OF c', of example_common example_ddgi no_bindings]
    by blast
qed

text \<open>
  The claim as stated, without a bound on the iterations, fails for a filter with zero
  iterations and the A-Trous output selected: \<open>output_ds\<close> returns A-Trous slot 1, which no
  command of the frame writes.
\<close>

theorem output_ds_unwritten_counterexample:
  "ds_resources (output_ds (fst (render zero_iterations example_common example_ddgi)) example_common)
     = [Img (ATrousImage 1)]
   \<and> Img (ATrousImage 1)
       \<notin> written no_bindings (snd (render zero_iterations example_common example_ddgi))"
proof -
  have n: "filter_iterations (m_a_trous zero_iterations) \<le> 0"
    by (simp add: zero_iterations_def)
  have f: "m_denoise zero_iterations \<and> m_current_output zero_iterations = OUTPUT_ATROUS
           \<and> filter_iterations (m_a_trous zero_iterations) = 0"
    by (simp add: zero_iterations_def example_reflections_def example_defaults_def construct_def initial_first_frame_def)
  have "ds_resources (output_ds (fst (render zero_iterations example_common example_ddgi)) example_common)
     = [Img (ATrousImage 1)]"
    using f by (simp add: output_ds_def fst_render_fields final_write_idx_def)
  then show ?thesis
    using a_trous_not_written_without_iterations [OF n] by simp
qed

end
